theory Spec2Isabelle
  imports Complex_Main
begin

section \<open>JavaScript values\<close>

text \<open>
  The repository holds three JavaScript modules that wrap the Leaflet map widget for a
  Blazor host:
  \<^item> \<^verbatim>\<open>leafletWrapper.js\<close>, referred to as module W below;
  \<^item> the second module stored in \<^verbatim>\<open>leafletCrimesWrapper.js\<close> (from its line 288 on,
    headed "Leaflet Wrapper for Blazor Integration"), referred to as module G: it keeps
    tracking lists and a disposed flag;
  \<^item> the investigation helpers at the top of \<^verbatim>\<open>leafletCrimesWrapper.js\<close>, of which
    \<^verbatim>\<open>calculateBearing\<close> is modelled.

  A JavaScript number is an IEEE double: a finite value, an infinity or NaN. Zero has a
  sign: \<open>Fin 0\<close> is the positive zero and \<open>NegZero\<close> the negative one. Values the host
  passes in are numbers, strings, booleans, null, undefined and arrays of these.

  The model follows the module code statement by statement. What belongs to the widget
  library is kept to what the modules rely on: which layers and controls are on the map,
  which event subscriptions it holds, the members of a group, and the last view it was
  asked for. Colours, weights and the other style options only reach the widget and are
  left out, as are the operations of module W that no property below concerns
  (\<^verbatim>\<open>setMapType\<close>, \<^verbatim>\<open>addStructure\<close>, \<^verbatim>\<open>addRectangleStructure\<close>, \<^verbatim>\<open>removeLayer\<close>, the toggles
  of the drawing control and the mini map). The widget is taken to accept the geometry
  it is handed, except where a parameter of the platform says that it raises.
\<close>

datatype num = Fin real | NegZero | PInf | NInf | NaN

text \<open>Whether a number is finite, its value when it is, and its sign.\<close>

fun finite_num :: "num \<Rightarrow> bool" where
  "finite_num (Fin a) = True"
| "finite_num NegZero = True"
| "finite_num x = False"

fun rval :: "num \<Rightarrow> real" where
  "rval (Fin a) = a"
| "rval x = 0"

fun sign_bit :: "num \<Rightarrow> bool" where
  "sign_bit (Fin a) = (a < 0)"
| "sign_bit NegZero = True"
| "sign_bit NInf = True"
| "sign_bit x = False"

datatype jsval =
    JUndefined
  | JNull
  | JBool bool
  | JNum num
  | JStr string
  | JArr "jsval list"

text \<open>What an operation hands back to its caller, and what it may throw.\<close>

datatype retval =
    Undefined
  | Null
  | MapRef
  | Handle nat
  | Text string

datatype js_error =
    TypeError
  | LibraryError

datatype outcome = Return retval | Throw js_error

datatype log_entry = Warn string | LogError string

text \<open>
  The kinds of layer the widget library makes, and a coordinate handed to the map:
  \<open>Val v\<close> is the value \<open>v\<close> and \<open>Mid a b\<close> stands for the value of \<^verbatim>\<open>(a + b) / 2\<close>.
\<close>

datatype lkind = TileLayer | Marker | Circle | Polygon | Polyline | GeoJSONLayer | FeatureGroup

datatype coord = Val jsval | Mid jsval jsval

text \<open>
  The parts of the JavaScript engine and of the Leaflet library that the modules call
  and that are not part of the repository. They are parameters of the model. The library
  raises an error for coordinates it cannot read (\<^verbatim>\<open>Invalid LatLng object\<close>):
  \<open>latlng_throws\<close> says for which pair \<^verbatim>\<open>map.setView([lat, lng], zoom)\<close> does, and
  \<open>factory_throws\<close> for which geometry the factory of a kind of layer does
  (\<^verbatim>\<open>L.marker\<close>, \<^verbatim>\<open>L.circle\<close>, \<^verbatim>\<open>L.polygon\<close>, \<^verbatim>\<open>L.polyline\<close>, and the layer \<^verbatim>\<open>L.geoJSON\<close>
  makes of a feature).
\<close>

datatype gtype = Point | LineString | PolygonT

record feature =
  ftype :: gtype
  coords :: jsval
  props :: "(string \<times> jsval) list option"

datatype geojson = GeoNull | FeatureCollection "feature list" | JsonText string

record platform =
  L_map_throws :: "jsval \<Rightarrow> jsval \<Rightarrow> jsval \<Rightarrow> jsval \<Rightarrow> bool"
  map_remove_throws :: bool
  fitBounds_throws :: "jsval \<Rightarrow> bool"
  latlng_throws :: "coord \<Rightarrow> coord \<Rightarrow> bool"
  factory_throws :: "lkind \<Rightarrow> jsval \<Rightarrow> bool"
  draw_loaded :: bool
  minimap_loaded :: bool
  string_to_number :: "string \<Rightarrow> num"
  number_to_string :: "num \<Rightarrow> string"
  json_stringify :: "feature list \<Rightarrow> string"

subsection \<open>Coercions of ECMAScript\<close>

fun truthy :: "jsval \<Rightarrow> bool" where
  "truthy JUndefined = False"
| "truthy JNull = False"
| "truthy (JBool b) = b"
| "truthy (JNum (Fin r)) = (r \<noteq> 0)"
| "truthy (JNum NaN) = False"
| "truthy (JNum NegZero) = False"
| "truthy (JNum _) = True"
| "truthy (JStr s) = (s \<noteq> [])"
| "truthy (JArr _) = True"

definition join_comma :: "string list \<Rightarrow> string" where
  "join_comma ss = (case ss of [] \<Rightarrow> [] | t # ts \<Rightarrow> foldl (\<lambda>acc u. acc @ '','' @ u) t ts)"

fun to_string :: "platform \<Rightarrow> jsval \<Rightarrow> string" where
  "to_string P JUndefined = ''undefined''"
| "to_string P JNull = ''null''"
| "to_string P (JBool b) = (if b then ''true'' else ''false'')"
| "to_string P (JNum n) = number_to_string P n"
| "to_string P (JStr s) = s"
| "to_string P (JArr xs) =
     join_comma (map (\<lambda>x. if x = JUndefined \<or> x = JNull then [] else to_string P x) xs)"

definition to_number :: "platform \<Rightarrow> jsval \<Rightarrow> num" where
  "to_number P v =
     (case v of
        JUndefined \<Rightarrow> NaN
      | JNull \<Rightarrow> Fin 0
      | JBool b \<Rightarrow> (if b then Fin 1 else Fin 0)
      | JNum n \<Rightarrow> n
      | JStr s \<Rightarrow> string_to_number P s
      | JArr xs \<Rightarrow> string_to_number P (to_string P (JArr xs)))"

definition isNaN :: "platform \<Rightarrow> jsval \<Rightarrow> bool" where
  "isNaN P v = (to_number P v = NaN)"

text \<open>
  Strict equality \<^verbatim>\<open>===\<close>. NaN differs from itself and the two zeros are equal; two
  arrays are equal only when they are the same object, which never holds for values that
  reach the module through the host's JSON interop.
\<close>

definition num_eq :: "num \<Rightarrow> num \<Rightarrow> bool" where
  "num_eq a b = (a \<noteq> NaN \<and> (a = b \<or> (finite_num a \<and> finite_num b \<and> rval a = 0 \<and> rval b = 0)))"

fun strict_eq :: "jsval \<Rightarrow> jsval \<Rightarrow> bool" where
  "strict_eq JUndefined JUndefined = True"
| "strict_eq JNull JNull = True"
| "strict_eq (JBool a) (JBool b) = (a = b)"
| "strict_eq (JNum a) (JNum b) = num_eq a b"
| "strict_eq (JStr a) (JStr b) = (a = b)"
| "strict_eq _ _ = False"

definition isArray :: "jsval \<Rightarrow> bool" where
  "isArray v = (case v of JArr _ \<Rightarrow> True | _ \<Rightarrow> False)"

text \<open>\<^verbatim>\<open>v.length\<close> and \<^verbatim>\<open>v[i]\<close> of a value that is neither null nor undefined.\<close>

definition js_length :: "jsval \<Rightarrow> jsval" where
  "js_length v =
     (case v of
        JArr xs \<Rightarrow> JNum (Fin (real (length xs)))
      | JStr s \<Rightarrow> JNum (Fin (real (length s)))
      | _ \<Rightarrow> JUndefined)"

definition js_index :: "jsval \<Rightarrow> nat \<Rightarrow> jsval" where
  "js_index v i =
     (case v of
        JArr xs \<Rightarrow> (if i < length xs then xs ! i else JUndefined)
      | JStr s \<Rightarrow> (if i < length s then JStr [s ! i] else JUndefined)
      | _ \<Rightarrow> JUndefined)"

section \<open>The map widget\<close>

text \<open>
  Layers and controls are objects of the widget library; the model keeps them in a store
  indexed by the object's identity. A layer object has a kind, the geometry it was
  created from, the popup bound to it, the properties of the feature it came from and,
  when it is a group, the layers it contains. A tile layer is the only kind that has a
  \<^verbatim>\<open>_url\<close>.
\<close>

record lobj =
  kind :: lkind
  geom :: jsval
  popup :: "jsval option"
  fprops :: "(string \<times> jsval) list option"
  members :: "nat list"

datatype event = DrawCreated | Click

datatype handler = AppendToDrawnItems | ForwardClick string

datatype view_req =
    SetView coord coord jsval
  | FitBounds jsval bool

text \<open>
  The map object: the layers attached to it directly (members of an attached group are
  shown through their group), the controls on it, its event subscriptions in the order
  they were made, and the last view request it received. The flag of \<open>FitBounds\<close> says
  whether the padding option was given.

  The methods behave as the library documents them: \<^verbatim>\<open>addLayer\<close> does nothing for a layer
  that is already on the map and \<^verbatim>\<open>removeLayer\<close> nothing for one that is not; adding a
  control that is on the map takes it off first; \<^verbatim>\<open>on(type, fn)\<close> adds a subscription (each
  call of the modules passes a new function, so none is taken for a duplicate);
  \<^verbatim>\<open>off(type)\<close> without a function drops every subscription of that type; \<^verbatim>\<open>remove()\<close>
  destroys the map with its layers, controls and subscriptions.
\<close>

record lmap =
  layers :: "nat list"
  controls :: "nat list"
  listeners :: "(event \<times> handler) list"
  view :: view_req

definition map_addLayer :: "lmap \<Rightarrow> nat \<Rightarrow> lmap" where
  "map_addLayer m h = (if h \<in> set (layers m) then m else m\<lparr>layers := layers m @ [h]\<rparr>)"

definition map_removeLayer :: "lmap \<Rightarrow> nat \<Rightarrow> lmap" where
  "map_removeLayer m h = m\<lparr>layers := removeAll h (layers m)\<rparr>"

definition map_addControl :: "lmap \<Rightarrow> nat \<Rightarrow> lmap" where
  "map_addControl m c = m\<lparr>controls := removeAll c (controls m) @ [c]\<rparr>"

definition map_removeControl :: "lmap \<Rightarrow> nat \<Rightarrow> lmap" where
  "map_removeControl m c = m\<lparr>controls := removeAll c (controls m)\<rparr>"

definition map_on :: "lmap \<Rightarrow> event \<Rightarrow> handler \<Rightarrow> lmap" where
  "map_on m ev f = m\<lparr>listeners := listeners m @ [(ev, f)]\<rparr>"

definition map_off :: "lmap \<Rightarrow> event \<Rightarrow> lmap" where
  "map_off m ev = m\<lparr>listeners := filter (\<lambda>p. fst p \<noteq> ev) (listeners m)\<rparr>"

definition map_setView :: "lmap \<Rightarrow> coord \<Rightarrow> coord \<Rightarrow> jsval \<Rightarrow> lmap" where
  "map_setView m la lo z = m\<lparr>view := SetView la lo z\<rparr>"

definition map_remove :: "lmap \<Rightarrow> lmap" where
  "map_remove m = m\<lparr>layers := [], controls := [], listeners := []\<rparr>"

definition subscriptions :: "lmap \<Rightarrow> event \<Rightarrow> handler list" where
  "subscriptions m ev = map snd (filter (\<lambda>p. fst p = ev) (listeners m))"

section \<open>Module state\<close>

text \<open>
  The module-level variables that both wrappers declare, the object store and the
  console. \<open>map_obj\<close> is the variable \<^verbatim>\<open>map\<close>; \<open>None\<close> stands for null and undefined.
\<close>

record mstate =
  map_obj :: "lmap option"
  drawnItems :: "nat option"
  drawControl :: "nat option"
  miniMapControl :: "nat option"
  heap :: "nat \<Rightarrow> lobj option"
  next_id :: nat
  console :: "log_entry list"

definition log :: "log_entry \<Rightarrow> 'a mstate_scheme \<Rightarrow> 'a mstate_scheme" where
  "log e s = s\<lparr>console := console s @ [e]\<rparr>"

definition new_obj :: "lkind \<Rightarrow> jsval \<Rightarrow> lobj" where
  "new_obj k g = \<lparr>kind = k, geom = g, popup = None, fprops = None, members = []\<rparr>"

definition alloc :: "lobj \<Rightarrow> 'a mstate_scheme \<Rightarrow> nat \<times> 'a mstate_scheme" where
  "alloc ob s = (next_id s, s\<lparr>heap := (heap s)(next_id s \<mapsto> ob), next_id := Suc (next_id s)\<rparr>)"

definition alloc_control :: "'a mstate_scheme \<Rightarrow> nat \<times> 'a mstate_scheme" where
  "alloc_control s = (next_id s, s\<lparr>next_id := Suc (next_id s)\<rparr>)"

definition has_url :: "'a mstate_scheme \<Rightarrow> nat \<Rightarrow> bool" where
  "has_url s h = (case heap s h of Some ob \<Rightarrow> kind ob = TileLayer | None \<Rightarrow> False)"

definition group_members :: "'a mstate_scheme \<Rightarrow> nat \<Rightarrow> nat list" where
  "group_members s g = (case heap s g of Some ob \<Rightarrow> members ob | None \<Rightarrow> [])"

text \<open>\<^verbatim>\<open>group.addLayer(l)\<close>: a group holds a layer at most once.\<close>

definition group_addLayer :: "nat \<Rightarrow> nat \<Rightarrow> 'a mstate_scheme \<Rightarrow> 'a mstate_scheme" where
  "group_addLayer g l s =
     (case heap s g of
        None \<Rightarrow> s
      | Some ob \<Rightarrow>
          if l \<in> set (members ob) then s
          else s\<lparr>heap := (heap s)(g \<mapsto> ob\<lparr>members := members ob @ [l]\<rparr>)\<rparr>)"

definition group_clearLayers :: "nat \<Rightarrow> 'a mstate_scheme \<Rightarrow> 'a mstate_scheme" where
  "group_clearLayers g s =
     (case heap s g of
        None \<Rightarrow> s
      | Some ob \<Rightarrow> s\<lparr>heap := (heap s)(g \<mapsto> ob\<lparr>members := []\<rparr>)\<rparr>)"

subsection \<open>The GeoJSON factory and export\<close>

text \<open>
  \<^verbatim>\<open>L.geoJSON(data, {onEachFeature})\<close> builds a group with one new layer per feature. The
  library reads GeoJSON objects: a feature collection is read as it is, and no data
  (null, undefined or the empty string) gives an empty group, but a string that is not
  empty has neither features nor a geometry and the library raises
  \<^verbatim>\<open>Invalid GeoJSON object\<close> for it. The features are taken in their order: the library
  makes the layer of a feature, which raises for a geometry it cannot read, and then runs
  the \<^verbatim>\<open>onEachFeature\<close> callback, which gives the popup to bind to the layer, or raises.
\<close>

definition read_geojson :: "geojson \<Rightarrow> feature list option" where
  "read_geojson data =
     (case data of
        GeoNull \<Rightarrow> Some []
      | FeatureCollection fs \<Rightarrow> Some fs
      | JsonText t \<Rightarrow> (if t = [] then Some [] else None))"

definition layer_kind :: "gtype \<Rightarrow> lkind" where
  "layer_kind t = (case t of Point \<Rightarrow> Marker | LineString \<Rightarrow> Polyline | PolygonT \<Rightarrow> Polygon)"

definition layer_of_feature :: "jsval option \<Rightarrow> feature \<Rightarrow> lobj" where
  "layer_of_feature p f =
     \<lparr>kind = layer_kind (ftype f), geom = coords f, popup = p, fprops = props f, members = []\<rparr>"

fun make_layers ::
  "platform \<Rightarrow> (feature \<Rightarrow> js_error + jsval option) \<Rightarrow> feature list \<Rightarrow> js_error + lobj list" where
  "make_layers P onEachFeature [] = Inr []"
| "make_layers P onEachFeature (f # fs) =
     (if factory_throws P (layer_kind (ftype f)) (coords f) then Inl LibraryError
      else (case onEachFeature f of
              Inl e \<Rightarrow> Inl e
            | Inr p \<Rightarrow>
                (case make_layers P onEachFeature fs of
                   Inl e \<Rightarrow> Inl e
                 | Inr obs \<Rightarrow> Inr (layer_of_feature p f # obs))))"

fun alloc_all :: "lobj list \<Rightarrow> 'a mstate_scheme \<Rightarrow> nat list \<times> 'a mstate_scheme" where
  "alloc_all [] s = ([], s)"
| "alloc_all (ob # obs) s =
     (case alloc ob s of (h, s1) \<Rightarrow>
        (case alloc_all obs s1 of (hs, s2) \<Rightarrow> (h # hs, s2)))"

definition L_geoJSON ::
  "platform \<Rightarrow> geojson \<Rightarrow> (feature \<Rightarrow> js_error + jsval option) \<Rightarrow> 'a mstate_scheme
     \<Rightarrow> js_error + (nat \<times> nat list \<times> 'a mstate_scheme)" where
  "L_geoJSON P data onEachFeature s =
     (case read_geojson data of
        None \<Rightarrow> Inl LibraryError
      | Some fs \<Rightarrow>
          (case make_layers P onEachFeature fs of
             Inl e \<Rightarrow> Inl e
           | Inr obs \<Rightarrow>
               (case alloc_all obs s of (hs, s1) \<Rightarrow>
                  (case alloc ((new_obj GeoJSONLayer JNull)\<lparr>members := hs\<rparr>) s1 of (g, s2) \<Rightarrow>
                     Inr (g, hs, s2)))))"

text \<open>
  \<^verbatim>\<open>group.toGeoJSON()\<close>: one feature per member that is a shape. A circle is exported as
  the point of its centre.
\<close>

definition feature_of_obj :: "lobj \<Rightarrow> feature option" where
  "feature_of_obj ob =
     (case kind ob of
        Marker \<Rightarrow> Some \<lparr>ftype = Point, coords = geom ob, props = fprops ob\<rparr>
      | Circle \<Rightarrow> Some \<lparr>ftype = Point, coords = geom ob, props = fprops ob\<rparr>
      | Polyline \<Rightarrow> Some \<lparr>ftype = LineString, coords = geom ob, props = fprops ob\<rparr>
      | Polygon \<Rightarrow> Some \<lparr>ftype = PolygonT, coords = geom ob, props = fprops ob\<rparr>
      | _ \<Rightarrow> None)"

definition toGeoJSON :: "'a mstate_scheme \<Rightarrow> nat \<Rightarrow> feature list" where
  "toGeoJSON s g =
     List.map_filter (\<lambda>h. case heap s h of None \<Rightarrow> None | Some ob \<Rightarrow> feature_of_obj ob)
       (group_members s g)"

subsection \<open>A drawing completed by the user\<close>

text \<open>
  The drawing plugin creates the new layer and fires the draw-created event on the map;
  every subscription of that event runs, in the order of subscription. The handler both
  modules subscribe is \<^verbatim>\<open>function (e) { drawnItems.addLayer(e.layer); }\<close>, which reads the
  module variable when it runs.
\<close>

fun fire_created :: "handler list \<Rightarrow> nat \<Rightarrow> 'a mstate_scheme \<Rightarrow> 'a mstate_scheme \<times> outcome" where
  "fire_created [] l s = (s, Return Undefined)"
| "fire_created (AppendToDrawnItems # hs) l s =
     (case drawnItems s of
        None \<Rightarrow> (s, Throw TypeError)
      | Some g \<Rightarrow> fire_created hs l (group_addLayer g l s))"
| "fire_created (ForwardClick name # hs) l s = fire_created hs l s"

definition user_draws :: "lkind \<Rightarrow> jsval \<Rightarrow> 'a mstate_scheme \<Rightarrow> 'a mstate_scheme \<times> outcome" where
  "user_draws k g s =
     (case map_obj s of
        None \<Rightarrow> (s, Return Undefined)
      | Some m \<Rightarrow>
          (case alloc (new_obj k g) s of (l, s1) \<Rightarrow>
             fire_created (subscriptions m DrawCreated) l s1))"

section \<open>Module G: the wrapper with tracking lists and disposal\<close>

record gstate = mstate +
  markers :: "nat list"
  circles :: "nat list"
  polygons :: "nat list"
  polylines :: "nat list"
  geoJsonLayers :: "nat list"
  isDisposed :: bool

definition init_G :: gstate where
  "init_G =
     \<lparr>map_obj = None, drawnItems = None, drawControl = None, miniMapControl = None,
      heap = (\<lambda>h. None), next_id = 0, console = [],
      markers = [], circles = [], polygons = [], polylines = [], geoJsonLayers = [],
      isDisposed = False\<rparr>"

definition new_map :: "jsval \<Rightarrow> jsval \<Rightarrow> jsval \<Rightarrow> lmap" where
  "new_map lat lng zoom =
     \<lparr>layers = [], controls = [], listeners = [], view = SetView (Val lat) (Val lng) zoom\<rparr>"

definition createMap_G ::
  "platform \<Rightarrow> jsval \<Rightarrow> jsval \<Rightarrow> jsval \<Rightarrow> jsval \<Rightarrow> gstate \<Rightarrow> gstate \<times> outcome" where
  "createMap_G P elementId lat lng zoom s =
     (if isDisposed s
      then (log (Warn ''Map wrapper is disposed, cannot create map'') s, Return Undefined)
      else
        let s1 = (case map_obj s of
                    None \<Rightarrow> s
                  | Some m \<Rightarrow>
                      if map_remove_throws P then log (Warn ''Error removing existing map:'') s
                      else s\<lparr>map_obj := Some (map_remove m)\<rparr>)
        in if L_map_throws P elementId lat lng zoom
           then (log (LogError ''Error creating map:'') s1, Return Null)
           else (case alloc (new_obj TileLayer JNull) s1 of (tile, s2) \<Rightarrow>
                   (s2\<lparr>map_obj := Some (map_addLayer (new_map lat lng zoom) tile)\<rparr>,
                    Return MapRef)))"

text \<open>
  The add operations: the factory of the layer raises for coordinates the library cannot
  read, before the layer is put on the map and tracked.
\<close>

definition addMarker_G ::
  "platform \<Rightarrow> jsval \<Rightarrow> jsval \<Rightarrow> jsval \<Rightarrow> gstate \<Rightarrow> gstate \<times> outcome" where
  "addMarker_G P lat lng popupText s =
     (case map_obj s of
        None \<Rightarrow> (s, Return Undefined)
      | Some m \<Rightarrow>
          if factory_throws P Marker (JArr [lat, lng]) then (s, Throw LibraryError)
          else
            (case alloc ((new_obj Marker (JArr [lat, lng]))
                           \<lparr>popup := (if truthy popupText then Some popupText else None)\<rparr>) s of
               (marker, s1) \<Rightarrow>
                 (s1\<lparr>map_obj := Some (map_addLayer m marker), markers := markers s1 @ [marker]\<rparr>,
                  Return (Handle marker))))"

definition addCircle_G ::
  "platform \<Rightarrow> jsval \<Rightarrow> jsval \<Rightarrow> jsval \<Rightarrow> gstate \<Rightarrow> gstate \<times> outcome" where
  "addCircle_G P lat lng radius s =
     (case map_obj s of
        None \<Rightarrow> (s, Return Undefined)
      | Some m \<Rightarrow>
          if factory_throws P Circle (JArr [lat, lng, radius]) then (s, Throw LibraryError)
          else
            (case alloc (new_obj Circle (JArr [lat, lng, radius])) s of
               (circle, s1) \<Rightarrow>
                 (s1\<lparr>map_obj := Some (map_addLayer m circle), circles := circles s1 @ [circle]\<rparr>,
                  Return (Handle circle))))"

definition addPolygon_G :: "platform \<Rightarrow> jsval \<Rightarrow> gstate \<Rightarrow> gstate \<times> outcome" where
  "addPolygon_G P latLngs s =
     (case map_obj s of
        None \<Rightarrow> (s, Return Undefined)
      | Some m \<Rightarrow>
          if factory_throws P Polygon latLngs then (s, Throw LibraryError)
          else
            (case alloc (new_obj Polygon latLngs) s of
               (polygon, s1) \<Rightarrow>
                 (s1\<lparr>map_obj := Some (map_addLayer m polygon), polygons := polygons s1 @ [polygon]\<rparr>,
                  Return (Handle polygon))))"

definition addPolyline_G :: "platform \<Rightarrow> jsval \<Rightarrow> gstate \<Rightarrow> gstate \<times> outcome" where
  "addPolyline_G P latLngs s =
     (case map_obj s of
        None \<Rightarrow> (s, Return Undefined)
      | Some m \<Rightarrow>
          if factory_throws P Polyline latLngs then (s, Throw LibraryError)
          else
            (case alloc (new_obj Polyline latLngs) s of
               (polyline, s1) \<Rightarrow>
                 (s1\<lparr>map_obj := Some (map_addLayer m polyline), polylines := polylines s1 @ [polyline]\<rparr>,
                  Return (Handle polyline))))"

definition addGeoJson_G :: "platform \<Rightarrow> geojson \<Rightarrow> gstate \<Rightarrow> gstate \<times> outcome" where
  "addGeoJson_G P geoJson s =
     (case map_obj s of
        None \<Rightarrow> (s, Return Undefined)
      | Some m \<Rightarrow>
          (case L_geoJSON P geoJson (\<lambda>f. Inr None) s of
             Inl e \<Rightarrow> (s, Throw e)
           | Inr (layer, hs, s1) \<Rightarrow>
               (s1\<lparr>map_obj := Some (map_addLayer m layer),
                   geoJsonLayers := geoJsonLayers s1 @ [layer]\<rparr>,
                Return (Handle layer))))"

definition popupContent_G :: "platform \<Rightarrow> feature \<Rightarrow> js_error + jsval option" where
  "popupContent_G P f =
     (case props f of
        None \<Rightarrow> Inr None
      | Some ps \<Rightarrow>
          Inr (Some (JStr (foldl (\<lambda>popupContent (key, v).
                                    popupContent @ ''<strong>'' @ key @ '':</strong> '' @ to_string P v @ ''<br/>'')
                             ''<div>'' ps @ ''</div>''))))"

definition addGeoJsonWithPopup_G :: "platform \<Rightarrow> geojson \<Rightarrow> gstate \<Rightarrow> gstate \<times> outcome" where
  "addGeoJsonWithPopup_G P geoJson s =
     (case map_obj s of
        None \<Rightarrow> (s, Return Undefined)
      | Some m \<Rightarrow>
          (case L_geoJSON P geoJson (popupContent_G P) s of
             Inl e \<Rightarrow> (s, Throw e)
           | Inr (layer, hs, s1) \<Rightarrow>
               (s1\<lparr>map_obj := Some (map_addLayer m layer),
                   geoJsonLayers := geoJsonLayers s1 @ [layer]\<rparr>,
                Return (Handle layer))))"

definition clearMap_G :: "gstate \<Rightarrow> gstate \<times> outcome" where
  "clearMap_G s =
     (case map_obj s of
        None \<Rightarrow> (s, Return Undefined)
      | Some m \<Rightarrow>
          let m1 = foldl map_removeLayer m (markers s);
              m2 = foldl map_removeLayer m1 (circles s);
              m3 = foldl map_removeLayer m2 (polygons s);
              m4 = foldl map_removeLayer m3 (polylines s);
              m5 = foldl map_removeLayer m4 (geoJsonLayers s)
          in (s\<lparr>map_obj := Some m5, markers := [], circles := [], polygons := [],
                 polylines := [], geoJsonLayers := []\<rparr>,
              Return Undefined))"

definition setView_G ::
  "platform \<Rightarrow> jsval \<Rightarrow> jsval \<Rightarrow> jsval \<Rightarrow> gstate \<Rightarrow> gstate \<times> outcome" where
  "setView_G P lat lng zoom s =
     (case map_obj s of
        None \<Rightarrow> (s, Return Undefined)
      | Some m \<Rightarrow>
          if latlng_throws P (Val lat) (Val lng) then (s, Throw LibraryError)
          else (s\<lparr>map_obj := Some (map_setView m (Val lat) (Val lng) zoom)\<rparr>, Return Undefined))"

definition two :: jsval where
  "two = JNum (Fin 2)"

definition fitBounds_G :: "platform \<Rightarrow> jsval \<Rightarrow> gstate \<Rightarrow> gstate \<times> outcome" where
  "fitBounds_G P bounds s =
     (case map_obj s of
        None \<Rightarrow> (s, Return Undefined)
      | Some m \<Rightarrow>
          if \<not> truthy bounds \<or> \<not> strict_eq (js_length bounds) two \<or>
             \<not> isArray (js_index bounds 0) \<or> \<not> isArray (js_index bounds 1) \<or>
             \<not> strict_eq (js_length (js_index bounds 0)) two \<or>
             \<not> strict_eq (js_length (js_index bounds 1)) two
          then (log (LogError ''Invalid bounds format'') s, Return Undefined)
          else
            let minLat = js_index (js_index bounds 0) 0;
                minLng = js_index (js_index bounds 0) 1;
                maxLat = js_index (js_index bounds 1) 0;
                maxLng = js_index (js_index bounds 1) 1
            in if strict_eq minLat maxLat \<and> strict_eq minLng maxLng
               then (if latlng_throws P (Val minLat) (Val minLng) then (s, Throw LibraryError)
                     else (s\<lparr>map_obj := Some (map_setView m (Val minLat) (Val minLng) (JNum (Fin 10)))\<rparr>,
                           Return Undefined))
               else if isNaN P minLat \<or> isNaN P minLng \<or> isNaN P maxLat \<or> isNaN P maxLng
               then (log (LogError ''Invalid coordinate values'') s, Return Undefined)
               else if fitBounds_throws P bounds
               then (let s1 = log (LogError ''Error fitting bounds:'') s
                     in if latlng_throws P (Mid minLat maxLat) (Mid minLng maxLng)
                        then (s1, Throw LibraryError)
                        else (s1\<lparr>map_obj := Some (map_setView m (Mid minLat maxLat) (Mid minLng maxLng)
                                                    (JNum (Fin 8)))\<rparr>,
                              Return Undefined))
               else (s\<lparr>map_obj := Some (m\<lparr>view := FitBounds bounds True\<rparr>)\<rparr>, Return Undefined))"

text \<open>
  The drawing tools. Colours, weights and the choice of tools configure the control's
  appearance only and are not part of the state; \<open>options\<close> is \<open>None\<close> when the caller
  passes null or undefined, where reading a property of it raises a TypeError.
\<close>

type_synonym draw_options = "(string \<times> jsval) list"

definition initDrawTools_G :: "platform \<Rightarrow> gstate \<Rightarrow> gstate \<times> outcome" where
  "initDrawTools_G P s =
     (case map_obj s of
        None \<Rightarrow> (s, Return Undefined)
      | Some m \<Rightarrow>
          if \<not> draw_loaded P
          then (log (LogError ''Leaflet.draw library not loaded'') s, Return Undefined)
          else
            (case alloc (new_obj FeatureGroup JNull) s of (g, s1) \<Rightarrow>
               (case alloc_control s1 of (c, s2) \<Rightarrow>
                  (s2\<lparr>drawnItems := Some g, drawControl := Some c,
                      map_obj := Some (map_on (map_addControl (map_addLayer m g) c)
                                         DrawCreated AppendToDrawnItems)\<rparr>,
                   Return Undefined))))"

definition initDrawToolsAdvanced_G ::
  "platform \<Rightarrow> draw_options option \<Rightarrow> gstate \<Rightarrow> gstate \<times> outcome" where
  "initDrawToolsAdvanced_G P options s =
     (case map_obj s of
        None \<Rightarrow> (s, Return Undefined)
      | Some m \<Rightarrow>
          (case alloc (new_obj FeatureGroup JNull) s of (g, s1) \<Rightarrow>
             let s2 = s1\<lparr>drawnItems := Some g, map_obj := Some (map_addLayer m g)\<rparr>
             in (case options of
                   None \<Rightarrow> (s2, Throw TypeError)
                 | Some opts \<Rightarrow>
                     if \<not> draw_loaded P then (s2, Throw TypeError)
                     else
                       (case alloc_control s2 of (c, s3) \<Rightarrow>
                          (s3\<lparr>drawControl := Some c,
                              map_obj := Some (map_on (map_addControl (map_addLayer m g) c)
                                                 DrawCreated AppendToDrawnItems)\<rparr>,
                           Return Undefined)))))"

definition updateDrawToolsStyle_G :: "platform \<Rightarrow> gstate \<Rightarrow> gstate \<times> outcome" where
  "updateDrawToolsStyle_G P s =
     (case drawControl s of
        None \<Rightarrow> initDrawTools_G P s
      | Some c \<Rightarrow>
          (case map_obj s of
             None \<Rightarrow> (s, Throw TypeError)
           | Some m \<Rightarrow> initDrawTools_G P (s\<lparr>map_obj := Some (map_removeControl m c)\<rparr>)))"

definition enableDrawing_G :: "gstate \<Rightarrow> gstate \<times> outcome" where
  "enableDrawing_G s =
     (case drawControl s of
        None \<Rightarrow> (s, Return Undefined)
      | Some c \<Rightarrow>
          (case map_obj s of
             None \<Rightarrow> (s, Throw TypeError)
           | Some m \<Rightarrow> (s\<lparr>map_obj := Some (map_addControl m c)\<rparr>, Return Undefined)))"

definition disableDrawing_G :: "gstate \<Rightarrow> gstate \<times> outcome" where
  "disableDrawing_G s =
     (case drawControl s of
        None \<Rightarrow> (s, Return Undefined)
      | Some c \<Rightarrow>
          (case map_obj s of
             None \<Rightarrow> (s, Throw TypeError)
           | Some m \<Rightarrow> (s\<lparr>map_obj := Some (map_removeControl m c)\<rparr>, Return Undefined)))"

definition clearAllDrawn_G :: "gstate \<Rightarrow> gstate \<times> outcome" where
  "clearAllDrawn_G s =
     (case drawnItems s of
        None \<Rightarrow> (s, Return Undefined)
      | Some g \<Rightarrow> (group_clearLayers g s, Return Undefined))"

definition getDrawnGeoJson_G :: "platform \<Rightarrow> gstate \<Rightarrow> gstate \<times> outcome" where
  "getDrawnGeoJson_G P s =
     (case drawnItems s of
        None \<Rightarrow> (s, Return Null)
      | Some g \<Rightarrow> (s, Return (Text (json_stringify P (toGeoJSON s g)))))"

definition addDrawnFromGeoJson_G :: "platform \<Rightarrow> geojson \<Rightarrow> gstate \<Rightarrow> gstate \<times> outcome" where
  "addDrawnFromGeoJson_G P geoJson s =
     (case drawnItems s of
        None \<Rightarrow> (s, Return Undefined)
      | Some g \<Rightarrow>
          (case L_geoJSON P geoJson (\<lambda>f. Inr None) s of
             Inl e \<Rightarrow> (s, Throw e)
           | Inr (layer, hs, s1) \<Rightarrow>
               (foldl (\<lambda>st l. group_addLayer g l st) s1 hs, Return Undefined)))"

definition addMiniMap_G :: "platform \<Rightarrow> gstate \<Rightarrow> gstate \<times> outcome" where
  "addMiniMap_G P s =
     (case map_obj s of
        None \<Rightarrow> (s, Return Undefined)
      | Some m \<Rightarrow>
          if \<not> minimap_loaded P
          then (log (LogError ''Leaflet.MiniMap plugin not loaded'') s, Return Undefined)
          else
            (case alloc (new_obj TileLayer JNull) s of (miniMapLayer, s1) \<Rightarrow>
               (case alloc_control s1 of (c, s2) \<Rightarrow>
                  (s2\<lparr>miniMapControl := Some c, map_obj := Some (map_addControl m c)\<rparr>,
                   Return Undefined))))"

definition removeMiniMap_G :: "gstate \<Rightarrow> gstate \<times> outcome" where
  "removeMiniMap_G s =
     (case miniMapControl s of
        None \<Rightarrow> (s, Return Undefined)
      | Some c \<Rightarrow>
          (case map_obj s of
             None \<Rightarrow> (s, Throw TypeError)
           | Some m \<Rightarrow>
               (s\<lparr>map_obj := Some (map_removeControl m c), miniMapControl := None\<rparr>,
                Return Undefined)))"

text \<open>The toggle only flips the mini map's display inside the control.\<close>

definition toggleMiniMap_G :: "gstate \<Rightarrow> gstate \<times> outcome" where
  "toggleMiniMap_G s = (s, Return Undefined)"

definition setupMapClick_G :: "gstate \<Rightarrow> gstate \<times> outcome" where
  "setupMapClick_G s =
     (case map_obj s of
        None \<Rightarrow> (s, Return Undefined)
      | Some m \<Rightarrow>
          if isDisposed s then (s, Return Undefined)
          else (s\<lparr>map_obj := Some (map_on m Click (ForwardClick ''HandleMapClick''))\<rparr>,
                Return Undefined))"

text \<open>
  \<^verbatim>\<open>dispose\<close>: every widget call in it stands in a try block of its own, so none of them
  reaches the caller. The layers and controls are taken off the map, the map is removed
  and the variable is set to null; then the lists and the other variables are reset.
\<close>

definition dispose_G :: "platform \<Rightarrow> gstate \<Rightarrow> gstate \<times> outcome" where
  "dispose_G P s =
     (let s1 = s\<lparr>isDisposed := True\<rparr>;
          s2 = (case map_obj s1 of
                  None \<Rightarrow> s1
                | Some m \<Rightarrow>
                    let m1 = foldl map_removeLayer m
                               (markers s1 @ circles s1 @ polygons s1 @ polylines s1 @ geoJsonLayers s1);
                        m2 = (case drawControl s1 of None \<Rightarrow> m1 | Some c \<Rightarrow> map_removeControl m1 c);
                        m3 = (case miniMapControl s1 of None \<Rightarrow> m2 | Some c \<Rightarrow> map_removeControl m2 c);
                        s' = (if map_remove_throws P then log (Warn ''Error removing map:'') s1
                              else s1\<lparr>map_obj := Some (map_remove m3)\<rparr>)
                    in s'\<lparr>map_obj := None\<rparr>)
      in (s2\<lparr>markers := [], circles := [], polygons := [], polylines := [], geoJsonLayers := [],
             drawnItems := None, drawControl := None, miniMapControl := None\<rparr>,
          Return Undefined))"

subsection \<open>The operations of module G as data\<close>

datatype op_G =
    Op_createMap jsval jsval jsval jsval
  | Op_addMarker jsval jsval jsval
  | Op_addCircle jsval jsval jsval
  | Op_addPolygon jsval
  | Op_addPolyline jsval
  | Op_addGeoJson geojson
  | Op_addGeoJsonWithPopup geojson
  | Op_clearMap
  | Op_setView jsval jsval jsval
  | Op_fitBounds jsval
  | Op_initDrawTools
  | Op_initDrawToolsAdvanced "draw_options option"
  | Op_updateDrawToolsStyle
  | Op_enableDrawing
  | Op_disableDrawing
  | Op_clearAllDrawn
  | Op_getDrawnGeoJson
  | Op_addDrawnFromGeoJson geojson
  | Op_addMiniMap
  | Op_removeMiniMap
  | Op_toggleMiniMap
  | Op_setupMapClick
  | Op_dispose

fun run_G :: "platform \<Rightarrow> op_G \<Rightarrow> gstate \<Rightarrow> gstate \<times> outcome" where
  "run_G P (Op_createMap e la lo z) s = createMap_G P e la lo z s"
| "run_G P (Op_addMarker la lo t) s = addMarker_G P la lo t s"
| "run_G P (Op_addCircle la lo r) s = addCircle_G P la lo r s"
| "run_G P (Op_addPolygon ps) s = addPolygon_G P ps s"
| "run_G P (Op_addPolyline ps) s = addPolyline_G P ps s"
| "run_G P (Op_addGeoJson d) s = addGeoJson_G P d s"
| "run_G P (Op_addGeoJsonWithPopup d) s = addGeoJsonWithPopup_G P d s"
| "run_G P Op_clearMap s = clearMap_G s"
| "run_G P (Op_setView la lo z) s = setView_G P la lo z s"
| "run_G P (Op_fitBounds b) s = fitBounds_G P b s"
| "run_G P Op_initDrawTools s = initDrawTools_G P s"
| "run_G P (Op_initDrawToolsAdvanced opts) s = initDrawToolsAdvanced_G P opts s"
| "run_G P Op_updateDrawToolsStyle s = updateDrawToolsStyle_G P s"
| "run_G P Op_enableDrawing s = enableDrawing_G s"
| "run_G P Op_disableDrawing s = disableDrawing_G s"
| "run_G P Op_clearAllDrawn s = clearAllDrawn_G s"
| "run_G P Op_getDrawnGeoJson s = getDrawnGeoJson_G P s"
| "run_G P (Op_addDrawnFromGeoJson d) s = addDrawnFromGeoJson_G P d s"
| "run_G P Op_addMiniMap s = addMiniMap_G P s"
| "run_G P Op_removeMiniMap s = removeMiniMap_G s"
| "run_G P Op_toggleMiniMap s = toggleMiniMap_G s"
| "run_G P Op_setupMapClick s = setupMapClick_G s"
| "run_G P Op_dispose s = dispose_G P s"

text \<open>
  The host calls one operation after another; an exception reaches the host and the
  state keeps what the operation had done before it.
\<close>

fun run_all_G :: "platform \<Rightarrow> op_G list \<Rightarrow> gstate \<Rightarrow> gstate" where
  "run_all_G P [] s = s"
| "run_all_G P (c # cs) s = run_all_G P cs (fst (run_G P c s))"

section \<open>Module W: the extended wrapper\<close>

subsection \<open>String replacement\<close>

text \<open>
  \<^verbatim>\<open>str.replace(pat, repl)\<close> with a string pattern replaces the first occurrence of the
  pattern only. In the replacement text \<^verbatim>\<open>$$\<close> stands for a dollar sign, \<^verbatim>\<open>$&\<close> for the
  matched text, a dollar sign with a backtick for the text before the match and a dollar
  sign with an apostrophe for the text after it; with a string pattern there are no
  capture groups, so every other character stands for itself.
\<close>

definition starts_with :: "string \<Rightarrow> string \<Rightarrow> bool" where
  "starts_with pat str = (take (length pat) str = pat)"

fun index_of :: "string \<Rightarrow> string \<Rightarrow> nat option" where
  "index_of pat [] = (if pat = [] then Some 0 else None)"
| "index_of pat (c # cs) =
     (if starts_with pat (c # cs) then Some 0 else map_option Suc (index_of pat cs))"

fun get_substitution :: "string \<Rightarrow> string \<Rightarrow> nat \<Rightarrow> string \<Rightarrow> string" where
  "get_substitution matched str pos [] = []"
| "get_substitution matched str pos [c] = [c]"
| "get_substitution matched str pos (c # d # rest) =
     (if c = CHR ''$'' \<and> d = CHR ''$'' then CHR ''$'' # get_substitution matched str pos rest
      else if c = CHR ''$'' \<and> d = CHR 0x60
        then take pos str @ get_substitution matched str pos rest
      else if c = CHR ''$'' \<and> d = CHR ''&''
        then matched @ get_substitution matched str pos rest
      else if c = CHR ''$'' \<and> d = CHR 0x27
        then drop (pos + length matched) str @ get_substitution matched str pos rest
      else c # get_substitution matched str pos (d # rest))"

definition js_replace :: "string \<Rightarrow> string \<Rightarrow> string \<Rightarrow> string" where
  "js_replace str pat repl =
     (case index_of pat str of
        None \<Rightarrow> str
      | Some pos \<Rightarrow>
          take pos str @ get_substitution pat str pos repl @ drop (pos + length pat) str)"

subsection \<open>State and operations\<close>

record wstate = mstate +
  baseLayers :: "string \<Rightarrow> nat option"
  currentBaseLayer :: string
  drawEnabled :: bool

text \<open>
  When the module is loaded \<^verbatim>\<open>map\<close> is undefined, \<^verbatim>\<open>baseLayers\<close> is an empty object and
  \<^verbatim>\<open>drawnItems\<close> is a fresh feature group.
\<close>

definition init_W :: wstate where
  "init_W =
     \<lparr>map_obj = None, drawnItems = Some 0, drawControl = None, miniMapControl = None,
      heap = (\<lambda>h. None)(0 \<mapsto> new_obj FeatureGroup JNull), next_id = 1, console = [],
      baseLayers = (\<lambda>k. None), currentBaseLayer = ''osm'', drawEnabled = False\<rparr>"

definition createMap_W ::
  "platform \<Rightarrow> jsval \<Rightarrow> jsval \<Rightarrow> jsval \<Rightarrow> jsval \<Rightarrow> wstate \<Rightarrow> wstate \<times> outcome" where
  "createMap_W P elementId lat lng zoom s =
     (if L_map_throws P elementId lat lng zoom then (s, Throw LibraryError)
      else
        (case alloc (new_obj TileLayer JNull) s of (osm, s1) \<Rightarrow>
           (case alloc (new_obj TileLayer JNull) s1 of (satellite, s2) \<Rightarrow>
              (case alloc_control s2 of (c, s3) \<Rightarrow>
                 (s3\<lparr>map_obj := Some (map_addControl (map_addLayer (new_map lat lng zoom) osm) c),
                     baseLayers := (baseLayers s3)(''osm'' \<mapsto> osm, ''satellite'' \<mapsto> satellite)\<rparr>,
                  Return MapRef)))))"

text \<open>
  The add operations use the variable \<^verbatim>\<open>map\<close> without a test: \<^verbatim>\<open>layer.addTo(map)\<close> calls
  \<^verbatim>\<open>map.addLayer\<close>, a TypeError when \<^verbatim>\<open>map\<close> is undefined. The factory of the layer runs
  before that and raises for coordinates the library cannot read.
\<close>

definition addMarker_W ::
  "platform \<Rightarrow> jsval \<Rightarrow> jsval \<Rightarrow> jsval \<Rightarrow> wstate \<Rightarrow> wstate \<times> outcome" where
  "addMarker_W P lat lng popupText s =
     (if factory_throws P Marker (JArr [lat, lng]) then (s, Throw LibraryError)
      else
        (case map_obj s of
           None \<Rightarrow> (s, Throw TypeError)
         | Some m \<Rightarrow>
             (case alloc ((new_obj Marker (JArr [lat, lng]))
                            \<lparr>popup := (if truthy popupText then Some popupText else None)\<rparr>) s of
                (marker, s1) \<Rightarrow>
                  (s1\<lparr>map_obj := Some (map_addLayer m marker)\<rparr>, Return (Handle marker)))))"

definition addCircle_W ::
  "platform \<Rightarrow> jsval \<Rightarrow> jsval \<Rightarrow> jsval \<Rightarrow> wstate \<Rightarrow> wstate \<times> outcome" where
  "addCircle_W P lat lng radius s =
     (if factory_throws P Circle (JArr [lat, lng, radius]) then (s, Throw LibraryError)
      else
        (case map_obj s of
           None \<Rightarrow> (s, Throw TypeError)
         | Some m \<Rightarrow>
             (case alloc (new_obj Circle (JArr [lat, lng, radius])) s of
                (circle, s1) \<Rightarrow>
                  (s1\<lparr>map_obj := Some (map_addLayer m circle)\<rparr>, Return (Handle circle)))))"

definition addPolygon_W :: "platform \<Rightarrow> jsval \<Rightarrow> wstate \<Rightarrow> wstate \<times> outcome" where
  "addPolygon_W P latLngs s =
     (if factory_throws P Polygon latLngs then (s, Throw LibraryError)
      else
        (case map_obj s of
           None \<Rightarrow> (s, Throw TypeError)
         | Some m \<Rightarrow>
             (case alloc (new_obj Polygon latLngs) s of
                (polygon, s1) \<Rightarrow>
                  (s1\<lparr>map_obj := Some (map_addLayer m polygon)\<rparr>, Return (Handle polygon)))))"

definition addPolyline_W :: "platform \<Rightarrow> jsval \<Rightarrow> wstate \<Rightarrow> wstate \<times> outcome" where
  "addPolyline_W P latLngs s =
     (if factory_throws P Polyline latLngs then (s, Throw LibraryError)
      else
        (case map_obj s of
           None \<Rightarrow> (s, Throw TypeError)
         | Some m \<Rightarrow>
             (case alloc (new_obj Polyline latLngs) s of
                (polyline, s1) \<Rightarrow>
                  (s1\<lparr>map_obj := Some (map_addLayer m polyline)\<rparr>, Return (Handle polyline)))))"

definition addGeoJson_W :: "platform \<Rightarrow> geojson \<Rightarrow> wstate \<Rightarrow> wstate \<times> outcome" where
  "addGeoJson_W P geoJsonData s =
     (case L_geoJSON P geoJsonData (\<lambda>f. Inr None) s of
        Inl e \<Rightarrow> (s, Throw e)
      | Inr (geoJsonLayer, hs, s1) \<Rightarrow>
          (case map_obj s of
             None \<Rightarrow> (s, Throw TypeError)
           | Some m \<Rightarrow>
               (s1\<lparr>map_obj := Some (map_addLayer m geoJsonLayer)\<rparr>, Return (Handle geoJsonLayer))))"

text \<open>
  The popup of a feature, as the \<^verbatim>\<open>onEachFeature\<close> callback of \<^verbatim>\<open>addGeoJsonWithPopup\<close>
  makes it. When the feature has properties and the template is truthy, the content
  starts as the template and, for each property of the feature in the order of
  enumeration, \<^verbatim>\<open>popupContent.replace('{' + prop + '}', value)\<close> is applied to the content
  built so far; the result is bound as the popup. No popup is bound when the feature has
  no properties or the template is falsy. A template that is truthy and not a string has
  no \<^verbatim>\<open>replace\<close> method: the first step of the loop raises a TypeError, and with no
  property there is no step and the template itself is bound.
\<close>

definition placeholder :: "string \<Rightarrow> string" where
  "placeholder prop = ''{'' @ prop @ ''}''"

definition popupContent_W :: "platform \<Rightarrow> string \<Rightarrow> (string \<times> jsval) list \<Rightarrow> string" where
  "popupContent_W P popupTemplate properties =
     foldl (\<lambda>popupContent (prop, v). js_replace popupContent (placeholder prop) (to_string P v))
       popupTemplate properties"

definition popup_W :: "platform \<Rightarrow> jsval \<Rightarrow> feature \<Rightarrow> js_error + jsval option" where
  "popup_W P popupTemplate f =
     (case props f of
        None \<Rightarrow> Inr None
      | Some properties \<Rightarrow>
          if \<not> truthy popupTemplate then Inr None
          else
            (case popupTemplate of
               JStr t \<Rightarrow> Inr (Some (JStr (popupContent_W P t properties)))
             | _ \<Rightarrow> if properties = [] then Inr (Some popupTemplate) else Inl TypeError))"

definition addGeoJsonWithPopup_W ::
  "platform \<Rightarrow> geojson \<Rightarrow> jsval \<Rightarrow> wstate \<Rightarrow> wstate \<times> outcome" where
  "addGeoJsonWithPopup_W P geoJsonData popupTemplate s =
     (case L_geoJSON P geoJsonData (popup_W P popupTemplate) s of
        Inl e \<Rightarrow> (s, Throw e)
      | Inr (layer, hs, s1) \<Rightarrow>
          (case map_obj s of
             None \<Rightarrow> (s, Throw TypeError)
           | Some m \<Rightarrow>
               (s1\<lparr>map_obj := Some (map_addLayer m layer)\<rparr>, Return (Handle layer))))"

text \<open>
  \<^verbatim>\<open>clearMap\<close>: \<^verbatim>\<open>map.eachLayer\<close> visits every layer shown on the map, the attached ones and
  the members of attached groups. A layer is removed when it has no \<^verbatim>\<open>_url\<close> and both
  \<^verbatim>\<open>baseLayers.osm\<close> and \<^verbatim>\<open>baseLayers.satellite\<close> are unset.
\<close>

definition shown_layers :: "'a mstate_scheme \<Rightarrow> lmap \<Rightarrow> nat list" where
  "shown_layers s m = concat (map (\<lambda>h. h # group_members s h) (layers m))"

definition clearMap_W :: "wstate \<Rightarrow> wstate \<times> outcome" where
  "clearMap_W s =
     (case map_obj s of
        None \<Rightarrow> (s, Throw TypeError)
      | Some m \<Rightarrow>
          (s\<lparr>map_obj :=
                Some (foldl (\<lambda>mm layer.
                               if \<not> has_url s layer \<and> baseLayers s ''osm'' = None \<and>
                                  baseLayers s ''satellite'' = None
                               then map_removeLayer mm layer else mm)
                        m (shown_layers s m))\<rparr>,
           Return Undefined))"

definition initDrawTools_W :: "platform \<Rightarrow> wstate \<Rightarrow> wstate \<times> outcome" where
  "initDrawTools_W P s =
     (case map_obj s of
        None \<Rightarrow> (s, Throw TypeError)
      | Some m \<Rightarrow>
          let m1 = (case drawnItems s of None \<Rightarrow> m | Some old \<Rightarrow> map_removeLayer m old)
          in (case alloc (new_obj FeatureGroup JNull) s of (g, s1) \<Rightarrow>
                let m2 = map_addLayer m1 g;
                    m3 = (case drawControl s of None \<Rightarrow> m2 | Some c \<Rightarrow> map_removeControl m2 c);
                    s2 = s1\<lparr>drawnItems := Some g, map_obj := Some m3\<rparr>
                in if \<not> draw_loaded P then (s2, Throw TypeError)
                   else
                     (case alloc_control s2 of (c, s3) \<Rightarrow>
                        (s3\<lparr>drawControl := Some c, drawEnabled := True,
                            map_obj := Some (map_on (map_off (map_addControl m3 c) DrawCreated)
                                               DrawCreated AppendToDrawnItems)\<rparr>,
                         Return Undefined))))"

definition initDrawToolsAdvanced_W ::
  "platform \<Rightarrow> draw_options option \<Rightarrow> wstate \<Rightarrow> wstate \<times> outcome" where
  "initDrawToolsAdvanced_W P options s =
     (case map_obj s of
        None \<Rightarrow> (s, Throw TypeError)
      | Some m \<Rightarrow>
          let m1 = (case drawnItems s of None \<Rightarrow> m | Some old \<Rightarrow> map_removeLayer m old)
          in (case alloc (new_obj FeatureGroup JNull) s of (g, s1) \<Rightarrow>
                let m2 = map_addLayer m1 g;
                    m3 = (case drawControl s of None \<Rightarrow> m2 | Some c \<Rightarrow> map_removeControl m2 c);
                    s2 = s1\<lparr>drawnItems := Some g, map_obj := Some m3\<rparr>
                in if \<not> draw_loaded P then (s2, Throw TypeError)
                   else
                     (case alloc_control s2 of (c, s3) \<Rightarrow>
                        (s3\<lparr>drawControl := Some c, drawEnabled := True,
                            map_obj := Some (map_on (map_off (map_addControl m3 c) DrawCreated)
                                               DrawCreated AppendToDrawnItems)\<rparr>,
                         Return Undefined))))"

definition getDrawnGeoJson_W :: "platform \<Rightarrow> wstate \<Rightarrow> wstate \<times> outcome" where
  "getDrawnGeoJson_W P s =
     (case drawnItems s of
        None \<Rightarrow> (s, Throw TypeError)
      | Some g \<Rightarrow> (s, Return (Text (json_stringify P (toGeoJSON s g)))))"

text \<open>
  \<^verbatim>\<open>addDrawnFromGeoJson\<close> of module W hands the group over in the \<^verbatim>\<open>onEachFeature\<close>
  callback: the features are taken in their order, and the layer of each is appended to
  the drawn items as soon as it is made. The group that \<^verbatim>\<open>L.geoJSON\<close> returns is dropped.
\<close>

fun import_each :: "platform \<Rightarrow> feature list \<Rightarrow> 'a mstate_scheme \<Rightarrow> 'a mstate_scheme \<times> outcome" where
  "import_each P [] s = (s, Return Undefined)"
| "import_each P (f # fs) s =
     (if factory_throws P (layer_kind (ftype f)) (coords f) then (s, Throw LibraryError)
      else
        (case alloc (layer_of_feature None f) s of (l, s1) \<Rightarrow>
           (case drawnItems s1 of
              None \<Rightarrow> (s1, Throw TypeError)
            | Some g \<Rightarrow> import_each P fs (group_addLayer g l s1))))"

definition addDrawnFromGeoJson_W :: "platform \<Rightarrow> geojson \<Rightarrow> wstate \<Rightarrow> wstate \<times> outcome" where
  "addDrawnFromGeoJson_W P geoJson s =
     (case read_geojson geoJson of
        None \<Rightarrow> (s, Throw LibraryError)
      | Some fs \<Rightarrow> import_each P fs s)"

definition setView_W ::
  "platform \<Rightarrow> jsval \<Rightarrow> jsval \<Rightarrow> jsval \<Rightarrow> wstate \<Rightarrow> wstate \<times> outcome" where
  "setView_W P lat lng zoom s =
     (case map_obj s of
        None \<Rightarrow> (s, Return Undefined)
      | Some m \<Rightarrow>
          if latlng_throws P (Val lat) (Val lng) then (s, Throw LibraryError)
          else (s\<lparr>map_obj := Some (map_setView m (Val lat) (Val lng) zoom)\<rparr>, Return Undefined))"

definition fitBounds_W :: "platform \<Rightarrow> jsval \<Rightarrow> wstate \<Rightarrow> wstate \<times> outcome" where
  "fitBounds_W P bounds s =
     (case map_obj s of
        None \<Rightarrow> (s, Return Undefined)
      | Some m \<Rightarrow>
          if fitBounds_throws P bounds then (s, Throw LibraryError)
          else (s\<lparr>map_obj := Some (m\<lparr>view := FitBounds bounds False\<rparr>)\<rparr>, Return Undefined))"

section \<open>Predicates used in the properties\<close>

text \<open>The state of module G after its teardown: no map, no drawing tools, empty lists.\<close>

definition torn_down :: "gstate \<Rightarrow> bool" where
  "torn_down s =
     (map_obj s = None \<and> drawnItems s = None \<and> drawControl s = None \<and>
      miniMapControl s = None \<and> isDisposed s \<and> markers s = [] \<and> circles s = [] \<and>
      polygons s = [] \<and> polylines s = [] \<and> geoJsonLayers s = [])"

text \<open>The overlays module G tracks.\<close>

definition tracked :: "gstate \<Rightarrow> nat list" where
  "tracked s = markers s @ circles s @ polygons s @ polylines s @ geoJsonLayers s"

definition tiles_untracked :: "gstate \<Rightarrow> bool" where
  "tiles_untracked s = list_all (\<lambda>h. \<not> has_url s h) (tracked s)"

fun add_op :: "op_G \<Rightarrow> bool" where
  "add_op (Op_addMarker la lo t) = True"
| "add_op (Op_addCircle la lo r) = True"
| "add_op (Op_addPolygon ps) = True"
| "add_op (Op_addPolyline ps) = True"
| "add_op (Op_addGeoJson d) = True"
| "add_op c = False"

text \<open>
  A sequence of initialisations of the drawing tools of module W: \<open>None\<close> stands for a call
  of \<^verbatim>\<open>initDrawTools\<close>, \<open>Some options\<close> for a call of \<^verbatim>\<open>initDrawToolsAdvanced(options)\<close>.
\<close>

fun init_all_W :: "platform \<Rightarrow> draw_options option option list \<Rightarrow> wstate \<Rightarrow> wstate" where
  "init_all_W P [] s = s"
| "init_all_W P (None # cs) s = init_all_W P cs (fst (initDrawTools_W P s))"
| "init_all_W P (Some options # cs) s = init_all_W P cs (fst (initDrawToolsAdvanced_W P options s))"

text \<open>Bounds of the right shape: a pair of pairs.\<close>

definition well_shaped :: "jsval \<Rightarrow> bool" where
  "well_shaped bounds = (\<exists>a b c d. bounds = JArr [JArr [a, b], JArr [c, d]])"

text \<open>
  A drawn-items group \<open>g\<close>, a feature group whose members \<open>ms\<close> are shapes. Every object
  in it was created earlier, so its identity lies below the next one to be given out.
\<close>

definition is_shape :: "'a mstate_scheme \<Rightarrow> nat \<Rightarrow> bool" where
  "is_shape s h = (case heap s h of None \<Rightarrow> False | Some ob \<Rightarrow> feature_of_obj ob \<noteq> None)"

definition drawn_group :: "'a mstate_scheme \<Rightarrow> nat \<Rightarrow> nat list \<Rightarrow> bool" where
  "drawn_group s g ms =
     (drawnItems s = Some g \<and> g < next_id s \<and> group_members s g = ms \<and>
      map_option kind (heap s g) = Some FeatureGroup \<and>
      list_all (\<lambda>h. h < next_id s \<and> is_shape s h) ms)"

text \<open>The library makes a layer of every one of these features.\<close>

definition accepted :: "platform \<Rightarrow> feature list \<Rightarrow> bool" where
  "accepted P fs = list_all (\<lambda>f. \<not> factory_throws P (layer_kind (ftype f)) (coords f)) fs"

section \<open>Concrete scenes\<close>

text \<open>
  A platform for the evaluations at concrete inputs. Both plugins are loaded and the
  library raises nothing on creating the map and on fitting bounds. As the widget library
  does, it raises for a latitude or longitude that converts to NaN, in \<^verbatim>\<open>map.setView\<close> and
  in the factories of markers and circles. The empty string converts to zero, the strings
  \<^verbatim>\<open>1\<close> and \<^verbatim>\<open>2\<close> to these numbers, and the other strings that occur are not numeric.
  No property below depends on how a number is printed or on the JSON syntax: every
  number prints as \<^verbatim>\<open>0\<close>, and the JSON text of a feature collection is stood in for by a
  text that is not empty and keeps the number of features.
\<close>

definition test_base :: platform where
  "test_base =
     \<lparr>L_map_throws = (\<lambda>elementId lat lng zoom. False), map_remove_throws = False,
      fitBounds_throws = (\<lambda>bounds. False),
      latlng_throws = (\<lambda>lat lng. False), factory_throws = (\<lambda>k g. False),
      draw_loaded = True, minimap_loaded = True,
      string_to_number = (\<lambda>str. if str = [] then Fin 0 else if str = ''1'' then Fin 1
                                 else if str = ''2'' then Fin 2 else NaN),
      number_to_string = (\<lambda>n. ''0''),
      json_stringify =
        (\<lambda>fs. ''FeatureCollection['' @ replicate (length fs) (CHR ''f'') @ '']'')\<rparr>"

definition test_platform :: platform where
  "test_platform =
     test_base
       \<lparr>latlng_throws :=
          (\<lambda>lat lng. case lat of
                        Val a \<Rightarrow> (case lng of Val b \<Rightarrow> isNaN test_base a \<or> isNaN test_base b
                                  | Mid b c \<Rightarrow> False)
                      | Mid a b \<Rightarrow> False),
        factory_throws :=
          (\<lambda>k g. (k = Marker \<or> k = Circle) \<and>
                  (case g of JArr (a # b # rest) \<Rightarrow> isNaN test_base a \<or> isNaN test_base b
                   | _ \<Rightarrow> True))\<rparr>"

text \<open>Module W after \<^verbatim>\<open>createMap('map', 0, 0, 5)\<close> and \<^verbatim>\<open>addMarker(1, 2, null)\<close>.\<close>

definition W_scene :: wstate where
  "W_scene =
     fst (addMarker_W test_platform (JNum (Fin 1)) (JNum (Fin 2)) JNull
            (fst (createMap_W test_platform (JStr ''map'') (JNum (Fin 0)) (JNum (Fin 0))
                    (JNum (Fin 5)) init_W)))"

text \<open>Module G after \<^verbatim>\<open>createMap('map', 0, 0, 5)\<close>, and after two calls of \<^verbatim>\<open>initDrawTools()\<close>.\<close>

definition G_scene :: gstate where
  "G_scene =
     fst (createMap_G test_platform (JStr ''map'') (JNum (Fin 0)) (JNum (Fin 0)) (JNum (Fin 5))
            init_G)"

definition G_twice :: gstate where
  "G_twice = fst (initDrawTools_G test_platform (fst (initDrawTools_G test_platform G_scene)))"

text \<open>Module G with drawing tools and two drawings, a marker and a polygon; the same for module W.\<close>

definition G_drawn :: gstate where
  "G_drawn =
     fst (user_draws Polygon (JArr [JArr [JNum (Fin 0), JNum (Fin 0)], JArr [JNum (Fin 0), JNum (Fin 1)],
                                    JArr [JNum (Fin 1), JNum (Fin 0)]])
       (fst (user_draws Marker (JArr [JNum (Fin 1), JNum (Fin 2)])
          (fst (initDrawTools_G test_platform G_scene)))))"

definition W_drawn :: wstate where
  "W_drawn =
     fst (user_draws Polygon (JArr [JArr [JNum (Fin 0), JNum (Fin 0)], JArr [JNum (Fin 0), JNum (Fin 1)],
                                    JArr [JNum (Fin 1), JNum (Fin 0)]])
       (fst (user_draws Marker (JArr [JNum (Fin 1), JNum (Fin 2)])
          (fst (initDrawTools_W test_platform W_scene)))))"

section \<open>Double arithmetic and the bearing\<close>

text \<open>
  The arithmetic of JavaScript numbers. An operation on finite operands computes the
  exact real result and rounds it to a double; a rounded result beyond the largest
  double is an infinity, and a result that is zero has a sign: that of the exact result
  when it is not zero, and otherwise the one IEEE 754 gives (the product and the quotient
  take the exclusive or of the signs, a sum that cancels is \<open>+0\<close> unless both operands are
  \<open>-0\<close>, the remainder takes the sign of the dividend). The rounding function and the library
  functions \<^verbatim>\<open>Math.sin\<close>, \<^verbatim>\<open>Math.cos\<close> and \<^verbatim>\<open>Math.atan2\<close>, which ECMAScript leaves to the
  implementation, are parameters.
\<close>

record fpu =
  round_d :: "real \<Rightarrow> real"
  pi_d :: real
  sin_d :: "num \<Rightarrow> num"
  cos_d :: "num \<Rightarrow> num"
  atan2_d :: "num \<Rightarrow> num \<Rightarrow> num"

definition max_double :: real where
  "max_double = 2 ^ 1024 - 2 ^ 971"

definition signed_zero :: "bool \<Rightarrow> num" where
  "signed_zero sb = (if sb then NegZero else Fin 0)"

definition signed_inf :: "bool \<Rightarrow> num" where
  "signed_inf sb = (if sb then NInf else PInf)"

text \<open>The double for the exact result \<open>r\<close>; \<open>sb\<close> is the sign of a zero result.\<close>

definition fl :: "fpu \<Rightarrow> bool \<Rightarrow> real \<Rightarrow> num" where
  "fl F sb r =
     (if max_double < round_d F r then PInf
      else if round_d F r < - max_double then NInf
      else if round_d F r = 0 then signed_zero sb
      else Fin (round_d F r))"

fun fneg :: "num \<Rightarrow> num" where
  "fneg (Fin a) = (if a = 0 then NegZero else Fin (- a))"
| "fneg NegZero = Fin 0"
| "fneg PInf = NInf"
| "fneg NInf = PInf"
| "fneg NaN = NaN"

definition fmul :: "fpu \<Rightarrow> num \<Rightarrow> num \<Rightarrow> num" where
  "fmul F x y =
     (if x = NaN \<or> y = NaN then NaN
      else if finite_num x \<and> finite_num y then fl F (sign_bit x \<noteq> sign_bit y) (rval x * rval y)
      else if (finite_num x \<and> rval x = 0) \<or> (finite_num y \<and> rval y = 0) then NaN
      else signed_inf (sign_bit x \<noteq> sign_bit y))"

definition fdiv :: "fpu \<Rightarrow> num \<Rightarrow> num \<Rightarrow> num" where
  "fdiv F x y =
     (if x = NaN \<or> y = NaN then NaN
      else if finite_num x \<and> finite_num y then
        (if rval y = 0 then (if rval x = 0 then NaN else signed_inf (sign_bit x \<noteq> sign_bit y))
         else fl F (sign_bit x \<noteq> sign_bit y) (rval x / rval y))
      else if finite_num x then signed_zero (sign_bit x \<noteq> sign_bit y)
      else if finite_num y then signed_inf (sign_bit x \<noteq> sign_bit y)
      else NaN)"

definition fadd :: "fpu \<Rightarrow> num \<Rightarrow> num \<Rightarrow> num" where
  "fadd F x y =
     (if x = NaN \<or> y = NaN then NaN
      else if finite_num x \<and> finite_num y then
        (if rval x + rval y = 0 then signed_zero (sign_bit x \<and> sign_bit y)
         else fl F (rval x + rval y < 0) (rval x + rval y))
      else if finite_num x then y
      else if finite_num y then x
      else if x = y then x
      else NaN)"

definition fsub :: "fpu \<Rightarrow> num \<Rightarrow> num \<Rightarrow> num" where
  "fsub F x y = fadd F x (fneg y)"

text \<open>
  The remainder \<^verbatim>\<open>%\<close> takes the sign of the dividend and is exact: the quotient is
  truncated towards zero.
\<close>

definition trunc :: "real \<Rightarrow> int" where
  "trunc q = (if 0 \<le> q then \<lfloor>q\<rfloor> else \<lceil>q\<rceil>)"

definition frem :: "num \<Rightarrow> num \<Rightarrow> num" where
  "frem x y =
     (if x = NaN \<or> y = NaN \<or> \<not> finite_num x \<or> (finite_num y \<and> rval y = 0) then NaN
      else if \<not> finite_num y then x
      else let r = rval x - rval y * of_int (trunc (rval x / rval y))
           in if r = 0 then signed_zero (sign_bit x) else Fin r)"

text \<open>
  \<^verbatim>\<open>calculateBearing\<close> of the investigation helpers, on numbers. The Greek names of the
  source are spelled out.
\<close>

definition calculateBearing :: "fpu \<Rightarrow> num \<Rightarrow> num \<Rightarrow> num \<Rightarrow> num \<Rightarrow> num" where
  "calculateBearing F fromLat fromLng toLat toLng =
     (let phi1 = fdiv F (fmul F fromLat (Fin (pi_d F))) (Fin 180);
          phi2 = fdiv F (fmul F toLat (Fin (pi_d F))) (Fin 180);
          dlambda = fdiv F (fmul F (fsub F toLng fromLng) (Fin (pi_d F))) (Fin 180);
          y = fmul F (sin_d F dlambda) (cos_d F phi2);
          x = fsub F (fmul F (cos_d F phi1) (sin_d F phi2))
                     (fmul F (fmul F (sin_d F phi1) (cos_d F phi2)) (cos_d F dlambda));
          theta = atan2_d F y x
      in frem (fadd F (fdiv F (fmul F theta (Fin 180)) (Fin (pi_d F))) (Fin 360)) (Fin 360))"

text \<open>
  What IEEE 754 and ECMAScript promise of the parameters: rounding to nearest is
  monotone, odd and idempotent, and leaves the integers up to \<open>2^53\<close> and the powers of two
  as they are; \<^verbatim>\<open>Math.PI\<close> lies between 2 and 4; the sine and the cosine of a finite number
  are finite and within \<open>[-1, 1]\<close>, and NaN otherwise; the sine of a zero is that zero and
  the cosine of a zero is one; \<^verbatim>\<open>Math.atan2\<close> is NaN when an argument is, and otherwise
  finite and within \<^verbatim>\<open>Math.PI\<close> of zero; \<^verbatim>\<open>Math.atan2\<close> of two zeros is the first argument
  when the second is \<open>+0\<close>, and \<^verbatim>\<open>Math.PI\<close> with the sign of the first argument when the
  second is \<open>-0\<close>.
\<close>

definition ieee :: "fpu \<Rightarrow> bool" where
  "ieee F =
     ((\<forall>a b. a \<le> b \<longrightarrow> round_d F a \<le> round_d F b) \<and>
      (\<forall>r. round_d F (- r) = - round_d F r) \<and>
      (\<forall>r. round_d F (round_d F r) = round_d F r) \<and>
      (\<forall>k::int. \<bar>k\<bar> \<le> 2 ^ 53 \<longrightarrow> round_d F (of_int k) = of_int k) \<and>
      (\<forall>n::nat. round_d F (2 ^ n) = 2 ^ n) \<and>
      2 \<le> pi_d F \<and> pi_d F \<le> 4 \<and>
      (\<forall>x. finite_num x \<longrightarrow> finite_num (sin_d F x) \<and> \<bar>rval (sin_d F x)\<bar> \<le> 1) \<and>
      (\<forall>x. finite_num x \<longrightarrow> finite_num (cos_d F x) \<and> \<bar>rval (cos_d F x)\<bar> \<le> 1) \<and>
      (\<forall>x. \<not> finite_num x \<longrightarrow> sin_d F x = NaN \<and> cos_d F x = NaN) \<and>
      sin_d F (Fin 0) = Fin 0 \<and> sin_d F NegZero = NegZero \<and>
      cos_d F (Fin 0) = Fin 1 \<and> cos_d F NegZero = Fin 1 \<and>
      (\<forall>y x. y \<noteq> NaN \<and> x \<noteq> NaN \<longrightarrow>
             finite_num (atan2_d F y x) \<and> \<bar>rval (atan2_d F y x)\<bar> \<le> pi_d F) \<and>
      (\<forall>y x. y = NaN \<or> x = NaN \<longrightarrow> atan2_d F y x = NaN) \<and>
      atan2_d F (Fin 0) (Fin 0) = Fin 0 \<and> atan2_d F NegZero (Fin 0) = NegZero \<and>
      atan2_d F (Fin 0) NegZero = Fin (pi_d F) \<and> atan2_d F NegZero NegZero = Fin (- pi_d F))"


text \<open>
  Exact arithmetic with the overflow of doubles: nothing is rounded, and the library
  functions are the real ones, with the values ECMAScript gives them at the zeros and
  the infinities. It is used for the evaluations at concrete inputs.
\<close>

definition exact_sin :: "num \<Rightarrow> num" where
  "exact_sin x = (case x of Fin a \<Rightarrow> Fin (sin a) | NegZero \<Rightarrow> NegZero | _ \<Rightarrow> NaN)"

definition exact_cos :: "num \<Rightarrow> num" where
  "exact_cos x = (case x of Fin a \<Rightarrow> Fin (cos a) | NegZero \<Rightarrow> Fin 1 | _ \<Rightarrow> NaN)"

definition atan2_real :: "real \<Rightarrow> real \<Rightarrow> real" where
  "atan2_real y x =
     (if 0 < x then arctan (y / x)
      else if x < 0 then (if 0 \<le> y then arctan (y / x) + pi else arctan (y / x) - pi)
      else if 0 < y then pi / 2
      else if y < 0 then - (pi / 2)
      else 0)"

definition exact_atan2 :: "num \<Rightarrow> num \<Rightarrow> num" where
  "exact_atan2 y x =
     (if y = NaN \<or> x = NaN then NaN
      else let s = (if sign_bit y then - 1 else 1) in
        if finite_num y then
          (if x = PInf \<or> (finite_num x \<and> rval y = 0 \<and> (0 < rval x \<or> x = Fin 0))
           then signed_zero (sign_bit y)
           else if x = NInf \<or> (finite_num x \<and> rval y = 0) then Fin (s * pi)
           else Fin (atan2_real (rval y) (rval x)))
        else if x = PInf then Fin (s * pi / 4)
        else if x = NInf then Fin (s * (3 * pi / 4))
        else Fin (s * (pi / 2)))"

definition exact_fpu :: fpu where
  "exact_fpu =
     \<lparr>round_d = (\<lambda>r. r), pi_d = pi, sin_d = exact_sin, cos_d = exact_cos,
      atan2_d = exact_atan2\<rparr>"

section \<open>Unfolding the concrete scenes\<close>

lemma to_string_cong:
  assumes "number_to_string P = number_to_string Q"
  shows "to_string P v = to_string Q v"
proof (induction v)
  case (JArr xs)
  have "map (\<lambda>x. if x = JUndefined \<or> x = JNull then [] else to_string P x) xs =
        map (\<lambda>x. if x = JUndefined \<or> x = JNull then [] else to_string Q x) xs"
    by (rule map_cong[OF refl]) (simp add: JArr)
  then show ?case by (simp only: to_string.simps)
qed (simp_all add: assms)

lemma isNaN_cong:
  assumes "number_to_string P = number_to_string Q" and "string_to_number P = string_to_number Q"
  shows "isNaN P v = isNaN Q v"
  by (cases v)
    (simp_all add: isNaN_def to_number_def assms(2) to_string_cong[OF assms(1)]
      del: to_string.simps)

lemma test_platform_fields [simp]:
  "L_map_throws test_platform = (\<lambda>elementId lat lng zoom. False)"
  "map_remove_throws test_platform = False"
  "fitBounds_throws test_platform = (\<lambda>bounds. False)"
  "draw_loaded test_platform"
  "minimap_loaded test_platform"
  "string_to_number test_platform =
     (\<lambda>str. if str = [] then Fin 0 else if str = ''1'' then Fin 1
            else if str = ''2'' then Fin 2 else NaN)"
  "number_to_string test_platform = (\<lambda>n. ''0'')"
  "json_stringify test_platform =
     (\<lambda>fs. ''FeatureCollection['' @ replicate (length fs) (CHR ''f'') @ '']'')"
  by (simp_all add: test_platform_def test_base_def)

lemma test_platform_raises [simp]:
  "latlng_throws test_platform (Val a) (Val b) = (isNaN test_platform a \<or> isNaN test_platform b)"
  "latlng_throws test_platform (Mid a b) c = False"
  "factory_throws test_platform Marker (JArr [a, b]) = (isNaN test_platform a \<or> isNaN test_platform b)"
  "factory_throws test_platform Circle (JArr [a, b, r]) = (isNaN test_platform a \<or> isNaN test_platform b)"
  "factory_throws test_platform Polygon g = False"
  "factory_throws test_platform Polyline g = False"
proof -
  have "isNaN test_platform v = isNaN test_base v" for v
    by (rule isNaN_cong) (simp_all add: test_platform_def)
  then show
    "latlng_throws test_platform (Val a) (Val b) = (isNaN test_platform a \<or> isNaN test_platform b)"
    "latlng_throws test_platform (Mid a b) c = False"
    "factory_throws test_platform Marker (JArr [a, b]) = (isNaN test_platform a \<or> isNaN test_platform b)"
    "factory_throws test_platform Circle (JArr [a, b, r]) = (isNaN test_platform a \<or> isNaN test_platform b)"
    "factory_throws test_platform Polygon g = False"
    "factory_throws test_platform Polyline g = False"
    by (simp_all add: test_platform_def)
qed

lemmas scene_defs =
  G_drawn_def W_drawn_def G_scene_def W_scene_def init_G_def init_W_def isNaN_def to_number_def
  createMap_G_def createMap_W_def addMarker_W_def initDrawTools_G_def initDrawTools_W_def
  user_draws_def alloc_def alloc_control_def new_obj_def new_map_def map_addLayer_def
  map_removeLayer_def map_addControl_def map_removeControl_def map_on_def map_off_def
  subscriptions_def group_addLayer_def group_members_def Let_def

section \<open>Properties of module G after disposal\<close>

lemma dispose_G_torn_down: "torn_down (fst (dispose_G P s))"
  by (simp add: dispose_G_def torn_down_def Let_def log_def split: option.splits)

lemma dispose_G_returns: "snd (dispose_G P s) = Return Undefined"
  by (simp add: dispose_G_def Let_def)

lemma torn_down_dispose: "torn_down d \<Longrightarrow> dispose_G Q d = (d, Return Undefined)"
  by (simp add: dispose_G_def torn_down_def Let_def)

lemma torn_down_run:
  assumes "torn_down d"
  shows "\<exists>es r. run_G Q c d = (d\<lparr>console := console d @ es\<rparr>, Return r) \<and>
                (r = Undefined \<or> r = Null)"
proof (cases c)
  case (Op_createMap e la lo z)
  then show ?thesis using assms
    by (simp add: createMap_G_def torn_down_def log_def) (rule exI, rule refl)
next
  case Op_dispose
  have "d\<lparr>console := console d @ []\<rparr> = d" by simp
  then show ?thesis using assms Op_dispose torn_down_dispose[OF assms, of Q]
    by (metis run_G.simps(23))
qed (use assms in \<open>auto simp: torn_down_def addMarker_G_def addCircle_G_def addPolygon_G_def
      addPolyline_G_def addGeoJson_G_def addGeoJsonWithPopup_G_def clearMap_G_def setView_G_def
      fitBounds_G_def initDrawTools_G_def initDrawToolsAdvanced_G_def updateDrawToolsStyle_G_def
      enableDrawing_G_def disableDrawing_G_def clearAllDrawn_G_def getDrawnGeoJson_G_def
      addDrawnFromGeoJson_G_def addMiniMap_G_def removeMiniMap_G_def toggleMiniMap_G_def
      setupMapClick_G_def intro: exI[of _ "[]"]\<close>)

text \<open>
  Claim C5. In module G, \<^verbatim>\<open>dispose()\<close> returns without an exception, and in the state it
  leaves every operation of the module returns undefined or null, raises nothing and
  changes no module variable (the only trace is the console warning of \<^verbatim>\<open>createMap\<close>).
  In particular \<^verbatim>\<open>addCircle\<close> returns no handle, and a second \<^verbatim>\<open>dispose()\<close> returns
  normally and leaves the state as it is.
\<close>

theorem after_dispose_no_op:
  fixes P Q :: platform and s :: gstate
  defines "d \<equiv> fst (dispose_G P s)"
  shows "snd (dispose_G P s) = Return Undefined \<and>
         (\<exists>es r. run_G Q c d = (d\<lparr>console := console d @ es\<rparr>, Return r) \<and>
                 (r = Undefined \<or> r = Null)) \<and>
         addCircle_G Q lat lng radius d = (d, Return Undefined) \<and>
         dispose_G Q d = (d, Return Undefined)"
proof -
  have td: "torn_down d" unfolding d_def by (rule dispose_G_torn_down)
  have "addCircle_G Q lat lng radius d = (d, Return Undefined)"
    using td by (simp add: addCircle_G_def torn_down_def)
  then show ?thesis
    using td torn_down_run[OF td] torn_down_dispose[OF td] dispose_G_returns by blast
qed

section \<open>Operations before the map exists\<close>

lemma G_not_ready_no_op:
  assumes "map_obj s = None"
  shows "addMarker_G P lat lng popupText s = (s, Return Undefined)"
    and "addCircle_G P lat lng radius s = (s, Return Undefined)"
    and "addPolygon_G P latLngs s = (s, Return Undefined)"
    and "addPolyline_G P latLngs s = (s, Return Undefined)"
    and "addGeoJson_G P geoJson s = (s, Return Undefined)"
    and "clearMap_G s = (s, Return Undefined)"
    and "fitBounds_G P bounds s = (s, Return Undefined)"
    and "setView_G P lat lng zoom s = (s, Return Undefined)"
  using assms
  by (simp_all add: addMarker_G_def addCircle_G_def addPolygon_G_def addPolyline_G_def
      addGeoJson_G_def clearMap_G_def fitBounds_G_def setView_G_def)

lemma W_not_ready:
  assumes "map_obj s = None"
  shows "\<exists>e. addMarker_W P lat lng popupText s = (s, Throw e)"
    and "\<exists>e. addCircle_W P lat lng radius s = (s, Throw e)"
    and "\<exists>e. addPolygon_W P latLngs s = (s, Throw e)"
    and "\<exists>e. addPolyline_W P latLngs s = (s, Throw e)"
    and "\<exists>e. addGeoJson_W P geoJson s = (s, Throw e)"
    and "clearMap_W s = (s, Throw TypeError)"
    and "fitBounds_W P bounds s = (s, Return Undefined)"
    and "setView_W P lat lng zoom s = (s, Return Undefined)"
  using assms
  by (simp_all add: addMarker_W_def addCircle_W_def addPolygon_W_def addPolyline_W_def
      addGeoJson_W_def clearMap_W_def fitBounds_W_def setView_W_def
      split: option.splits sum.splits)

text \<open>
  Claim C2 says that every registry operation called before the map exists changes
  nothing, returns no handle and raises nothing. Module G does so (\<open>G_not_ready_no_op\<close>),
  and so do \<^verbatim>\<open>setView\<close> and \<^verbatim>\<open>fitBounds\<close> of module W; the other operations of module W
  use the undefined \<^verbatim>\<open>map\<close> (\<open>W_not_ready\<close>). Right after the module is loaded,
  \<^verbatim>\<open>clearMap()\<close> and \<^verbatim>\<open>addMarker(1, 2, null)\<close> of module W raise a TypeError.
\<close>

theorem W_not_ready_throws:
  "map_obj init_W = None \<and>
   clearMap_W init_W = (init_W, Throw TypeError) \<and>
   addMarker_W test_platform (JNum (Fin 1)) (JNum (Fin 2)) JNull init_W =
     (init_W, Throw TypeError) \<and>
   (\<exists>e. addMarker_W P (JNum (Fin 1)) (JNum (Fin 2)) JNull init_W = (init_W, Throw e))"
  by (simp add: init_W_def clearMap_W_def addMarker_W_def isNaN_def to_number_def)

section \<open>Clearing the map\<close>

lemma layers_foldl_removeLayer:
  "foldl map_removeLayer m hs = m\<lparr>layers := filter (\<lambda>h. h \<notin> set hs) (layers m)\<rparr>"
proof (induction hs arbitrary: m)
  case Nil
  then show ?case by simp
next
  case (Cons a hs)
  have "filter (\<lambda>h. h \<notin> set hs) (removeAll a (layers m)) =
        filter (\<lambda>h. h \<noteq> a \<and> h \<notin> set hs) (layers m)"
    by (simp add: removeAll_filter_not_eq) metis
  then show ?case using Cons.IH[of "map_removeLayer m a"]
    by (simp add: map_removeLayer_def)
qed

lemma clearMap_G_clears:
  assumes "map_obj s = Some m"
  shows "clearMap_G s =
           (s\<lparr>map_obj := Some (m\<lparr>layers := filter (\<lambda>h. h \<notin> set (tracked s)) (layers m)\<rparr>),
              markers := [], circles := [], polygons := [], polylines := [], geoJsonLayers := []\<rparr>,
            Return Undefined)"
  using assms
  by (simp add: clearMap_G_def Let_def layers_foldl_removeLayer tracked_def conj_commute
      conj_left_commute)

subsection \<open>Allocation leaves the module variables alone\<close>

lemma has_url_alloc:
  "kind ob \<noteq> TileLayer \<Longrightarrow> has_url (snd (alloc ob s)) h = (h \<noteq> next_id s \<and> has_url s h)"
  by (simp add: alloc_def has_url_def)

lemma alloc_fields [simp]:
  "map_obj (snd (alloc ob s)) = map_obj s"
  "drawnItems (snd (alloc ob s)) = drawnItems s"
  "drawControl (snd (alloc ob s)) = drawControl s"
  "fst (alloc ob s) = next_id s"
  "next_id (snd (alloc ob s)) = Suc (next_id s)"
  "mstate.more (snd (alloc ob s)) = mstate.more s"
  by (simp_all add: alloc_def)

lemma alloc_all_frame:
  "map_obj (snd (alloc_all obs s)) = map_obj s \<and>
   drawnItems (snd (alloc_all obs s)) = drawnItems s \<and>
   mstate.more (snd (alloc_all obs s)) = mstate.more s \<and>
   next_id (snd (alloc_all obs s)) = next_id s + length obs \<and>
   fst (alloc_all obs s) = [next_id s ..< next_id s + length obs]"
proof (induction obs arbitrary: s)
  case Nil
  then show ?case by simp
next
  case (Cons ob obs)
  have "[next_id s ..< next_id s + length (ob # obs)] =
          next_id s # [Suc (next_id s) ..< Suc (next_id s) + length obs]"
    by (simp add: upt_rec)
  then show ?case using Cons.IH[of "snd (alloc ob s)"]
    by (simp add: split_beta del: upt_Suc)
qed

lemma alloc_all_has_url:
  "list_all (\<lambda>ob. kind ob \<noteq> TileLayer) obs \<Longrightarrow> has_url (snd (alloc_all obs s)) h \<Longrightarrow> has_url s h"
proof (induction obs arbitrary: s)
  case Nil
  then show ?case by simp
next
  case (Cons ob obs)
  from Cons.prems have "has_url (snd (alloc ob s)) h"
    using Cons.IH[of "snd (alloc ob s)"] by (simp add: split_beta)
  with Cons.prems show ?case by (simp add: has_url_alloc)
qed

lemma layer_of_feature_not_tile: "kind (layer_of_feature p f) \<noteq> TileLayer"
  by (simp add: layer_of_feature_def layer_kind_def split: gtype.splits)

lemma make_layers_not_tile:
  "make_layers P pop fs = Inr obs \<Longrightarrow> list_all (\<lambda>ob. kind ob \<noteq> TileLayer) obs"
proof (induction fs arbitrary: obs)
  case Nil
  then show ?case by simp
next
  case (Cons f fs)
  then show ?case
    by (auto simp: layer_of_feature_not_tile split: if_splits sum.splits)
qed

lemma L_geoJSON_frame:
  assumes "L_geoJSON P data pop s = Inr (g, hs, s1)"
  shows "map_obj s1 = map_obj s" and "drawnItems s1 = drawnItems s"
    and "mstate.more s1 = mstate.more s"
    and "has_url s1 h \<Longrightarrow> has_url s h"
proof -
  from assms obtain fs obs where fs: "read_geojson data = Some fs"
    and obs: "make_layers P pop fs = Inr obs"
    by (auto simp: L_geoJSON_def split: option.splits sum.splits)
  let ?sa = "snd (alloc_all obs s)"
  have s1: "s1 = snd (alloc ((new_obj GeoJSONLayer JNull)\<lparr>members := fst (alloc_all obs s)\<rparr>) ?sa)"
    using assms fs obs by (auto simp: L_geoJSON_def split_beta)
  show "map_obj s1 = map_obj s" "drawnItems s1 = drawnItems s" "mstate.more s1 = mstate.more s"
    using alloc_all_frame[of obs s] by (simp_all add: s1)
  assume "has_url s1 h"
  then have "has_url ?sa h" by (simp add: s1 has_url_alloc new_obj_def)
  moreover have "list_all (\<lambda>ob. kind ob \<noteq> TileLayer) obs"
    using obs by (rule make_layers_not_tile)
  ultimately show "has_url s h" using alloc_all_has_url by blast
qed

subsection \<open>Module G: add operations followed by clearMap\<close>

lemma more_lists:
  fixes s1 s :: gstate
  assumes "mstate.more s1 = mstate.more s"
  shows "markers s1 = markers s" "circles s1 = circles s" "polygons s1 = polygons s"
        "polylines s1 = polylines s" "geoJsonLayers s1 = geoJsonLayers s"
  using assms by (cases s; cases s1; simp)+

lemma add_op_preserves:
  assumes "add_op c" and "map_obj s \<noteq> None" and "tiles_untracked s"
  shows "map_obj (fst (run_G P c s)) \<noteq> None \<and> tiles_untracked (fst (run_G P c s))"
proof -
  from assms(2) obtain m where m: "map_obj s = Some m" by auto
  have base: "list_all (\<lambda>h. \<not> has_url s h) (tracked s)"
    using assms(3) by (simp add: tiles_untracked_def)
  show ?thesis
  proof (cases c)
    case (Op_addMarker la lo t)
    then show ?thesis using m base assms(3)
      by (simp add: addMarker_G_def split_beta tiles_untracked_def tracked_def has_url_def
          alloc_def new_obj_def list_all_iff)
  next
    case (Op_addCircle la lo r)
    then show ?thesis using m base assms(3)
      by (simp add: addCircle_G_def split_beta tiles_untracked_def tracked_def has_url_def
          alloc_def new_obj_def list_all_iff)
  next
    case (Op_addPolygon ps)
    then show ?thesis using m base assms(3)
      by (simp add: addPolygon_G_def split_beta tiles_untracked_def tracked_def has_url_def
          alloc_def new_obj_def list_all_iff)
  next
    case (Op_addPolyline ps)
    then show ?thesis using m base assms(3)
      by (simp add: addPolyline_G_def split_beta tiles_untracked_def tracked_def has_url_def
          alloc_def new_obj_def list_all_iff)
  next
    case (Op_addGeoJson d)
    show ?thesis
    proof (cases "L_geoJSON P d (\<lambda>f. Inr None) s")
      case (Inl e)
      then show ?thesis using Op_addGeoJson m assms(3) by (simp add: addGeoJson_G_def)
    next
      case (Inr r)
      then obtain g hs s1 where r: "L_geoJSON P d (\<lambda>f. Inr None) s = Inr (g, hs, s1)"
        by (cases r) auto
      note fr = L_geoJSON_frame[OF r]
      have g: "\<not> has_url s1 g"
        using r by (auto simp: L_geoJSON_def split_beta alloc_def has_url_def new_obj_def
            split: option.splits sum.splits)
      have lists: "markers s1 = markers s" "circles s1 = circles s" "polygons s1 = polygons s"
        "polylines s1 = polylines s" "geoJsonLayers s1 = geoJsonLayers s"
        using fr(3) by (rule more_lists)+
      have "list_all (\<lambda>h. \<not> has_url s1 h) (tracked s @ [g])"
        using base fr(4) g by (auto simp: list_all_iff)
      then show ?thesis using Op_addGeoJson m r lists
        by (simp add: addGeoJson_G_def tiles_untracked_def tracked_def has_url_def list_all_iff)
    qed
  qed (use assms(1) in simp_all)
qed

lemma adds_preserve:
  assumes "list_all add_op ops" and "map_obj s \<noteq> None" and "tiles_untracked s"
  shows "map_obj (run_all_G P ops s) \<noteq> None \<and> tiles_untracked (run_all_G P ops s)"
  using assms
proof (induction ops arbitrary: s)
  case Nil
  then show ?case by simp
next
  case (Cons c ops)
  then show ?case using add_op_preserves[of c s P] by simp
qed

lemma tiles_untracked_after_createMap:
  "tiles_untracked (fst (createMap_G P elementId lat lng zoom init_G))"
  by (simp add: createMap_G_def init_G_def tiles_untracked_def tracked_def log_def alloc_def
      Let_def)

text \<open>
  In module G, after any sequence of add operations \<^verbatim>\<open>clearMap()\<close> leaves the tracking
  lists empty, no overlay that was tracked is on the map any more, and every tile layer
  that was on the map still is.
\<close>

lemma clearMap_G_after_adds:
  fixes P :: platform
  assumes "list_all add_op ops" and "map_obj s0 = Some m0" and "tiles_untracked s0"
  defines "s \<equiv> run_all_G P ops s0"
  defines "s' \<equiv> fst (clearMap_G s)"
  shows "\<exists>m m'. map_obj s = Some m \<and> map_obj s' = Some m' \<and>
           snd (clearMap_G s) = Return Undefined \<and>
           tracked s' = [] \<and>
           (\<forall>h \<in> set (tracked s). h \<notin> set (layers m')) \<and>
           (\<forall>t \<in> set (layers m). has_url s t \<longrightarrow> t \<in> set (layers m'))"
proof -
  have inv: "map_obj s \<noteq> None" "tiles_untracked s"
    using adds_preserve[OF assms(1), of s0 P] assms(2,3) by (simp_all add: s_def)
  then obtain m where m: "map_obj s = Some m" by auto
  have "\<forall>t \<in> set (layers m). has_url s t \<longrightarrow> t \<notin> set (tracked s)"
    using inv(2) by (auto simp: tiles_untracked_def list_all_iff)
  then show ?thesis
    using m by (simp add: s'_def clearMap_G_clears[OF m] tracked_def)
qed

subsection \<open>Module W: clearMap removes nothing\<close>

lemma foldl_keep: "foldl (\<lambda>mm layer. mm) m xs = m"
  by (induction xs) simp_all

lemma clearMap_W_removes_nothing:
  assumes "map_obj s = Some m" and "baseLayers s ''osm'' = Some t"
  shows "clearMap_W s = (s, Return Undefined)"
  using assms by (simp add: clearMap_W_def foldl_keep)

lemma createMap_W_sets_osm:
  assumes "\<not> L_map_throws P elementId lat lng zoom"
  shows "\<exists>m t. map_obj (fst (createMap_W P elementId lat lng zoom s)) = Some m \<and>
               baseLayers (fst (createMap_W P elementId lat lng zoom s)) ''osm'' = Some t"
  using assms by (simp add: createMap_W_def alloc_def alloc_control_def)

text \<open>
  Claim C1 says that after add operations \<^verbatim>\<open>clearMap()\<close> takes every overlay off the map and
  keeps the base tile layers. Module G does so (\<open>clearMap_G_after_adds\<close>). In module W the
  test of \<^verbatim>\<open>clearMap\<close> asks that \<^verbatim>\<open>baseLayers.osm\<close> be unset, which never holds once the map
  is created (\<open>clearMap_W_removes_nothing\<close>): after \<^verbatim>\<open>createMap('map', 0, 0, 5)\<close> and
  \<^verbatim>\<open>addMarker(1, 2, null)\<close>, which returns the marker 4, the map shows the tile layer 1
  and the marker 4, and \<^verbatim>\<open>clearMap()\<close> leaves the state as it is, the marker still on the
  map.
\<close>

theorem W_clearMap_keeps_marker:
  "snd (addMarker_W test_platform (JNum (Fin 1)) (JNum (Fin 2)) JNull
          (fst (createMap_W test_platform (JStr ''map'') (JNum (Fin 0)) (JNum (Fin 0))
                  (JNum (Fin 5)) init_W)))
     = Return (Handle 4) \<and>
   map_obj W_scene =
     Some \<lparr>layers = [1, 4], controls = [3], listeners = [],
           view = SetView (Val (JNum (Fin 0))) (Val (JNum (Fin 0))) (JNum (Fin 5))\<rparr> \<and>
   has_url W_scene 1 \<and> \<not> has_url W_scene 4 \<and>
   clearMap_W W_scene = (W_scene, Return Undefined)"
  by (simp add: W_scene_def createMap_W_def addMarker_W_def init_W_def isNaN_def to_number_def
      alloc_def alloc_control_def map_addLayer_def map_addControl_def new_map_def new_obj_def
      has_url_def clearMap_W_def shown_layers_def group_members_def)

section \<open>The draw-created subscription\<close>

lemma subscriptions_on_off:
  "subscriptions (map_on (map_off m ev) ev f) ev = [f]"
  by (simp add: subscriptions_def map_on_def map_off_def filter_empty_conv)

lemma initDrawTools_W_one_subscription:
  assumes "map_obj s = Some m" and "draw_loaded P"
  shows "\<exists>m'. map_obj (fst (initDrawTools_W P s)) = Some m' \<and>
              subscriptions m' DrawCreated = [AppendToDrawnItems] \<and>
              snd (initDrawTools_W P s) = Return Undefined"
  using assms
  by (simp add: initDrawTools_W_def Let_def split_beta subscriptions_on_off alloc_control_def)

lemma initDrawToolsAdvanced_W_one_subscription:
  assumes "map_obj s = Some m" and "draw_loaded P"
  shows "\<exists>m'. map_obj (fst (initDrawToolsAdvanced_W P options s)) = Some m' \<and>
              subscriptions m' DrawCreated = [AppendToDrawnItems] \<and>
              snd (initDrawToolsAdvanced_W P options s) = Return Undefined"
  using assms
  by (simp add: initDrawToolsAdvanced_W_def Let_def split_beta subscriptions_on_off
      alloc_control_def)

text \<open>
  In module W, after any number of initialisations (at least one) exactly one
  draw-created subscription is active.
\<close>

lemma init_all_W_one_subscription:
  assumes "map_obj s = Some m" and "draw_loaded P" and "cs \<noteq> []"
  shows "\<exists>m'. map_obj (init_all_W P cs s) = Some m' \<and>
              subscriptions m' DrawCreated = [AppendToDrawnItems]"
  using assms
proof (induction cs arbitrary: s m)
  case Nil
  then show ?case by simp
next
  case (Cons c cs)
  let ?s1 = "case c of None \<Rightarrow> fst (initDrawTools_W P s)
                     | Some options \<Rightarrow> fst (initDrawToolsAdvanced_W P options s)"
  have one: "\<exists>m'. map_obj ?s1 = Some m' \<and> subscriptions m' DrawCreated = [AppendToDrawnItems]"
    using initDrawTools_W_one_subscription[OF Cons.prems(1,2)]
      initDrawToolsAdvanced_W_one_subscription[OF Cons.prems(1,2)]
    by (cases c) auto
  have eq: "init_all_W P (c # cs) s = init_all_W P cs ?s1" by (cases c) simp_all
  show ?case
  proof (cases "cs = []")
    case True
    then show ?thesis using one eq by simp
  next
    case False
    from one obtain m1 where "map_obj ?s1 = Some m1" by auto
    from Cons.IH[OF this Cons.prems(2) False] show ?thesis using eq by simp
  qed
qed

text \<open>With one subscription a completed drawing appends exactly one layer to the group.\<close>

lemma user_draws_appends_once:
  assumes "map_obj s = Some m" and "subscriptions m DrawCreated = [AppendToDrawnItems]"
    and "drawnItems s = Some g" and "heap s g = Some gob" and "g < next_id s"
    and "list_all (\<lambda>h. h < next_id s) (members gob)"
  shows "snd (user_draws k geo s) = Return Undefined \<and>
         group_members (fst (user_draws k geo s)) g = members gob @ [next_id s]"
  using assms
  by (auto simp: user_draws_def alloc_def group_addLayer_def group_members_def list_all_iff)

lemma initDrawTools_W_then_draw:
  assumes "map_obj s = Some m" and "draw_loaded P"
  defines "s1 \<equiv> fst (initDrawTools_W P s)"
  shows "drawnItems s1 = Some (next_id s) \<and> group_members s1 (next_id s) = [] \<and>
         group_members (fst (user_draws k geo s1)) (next_id s) = [next_id s1]"
  using assms(1,2)
  by (simp add: s1_def initDrawTools_W_def Let_def split_beta alloc_def alloc_control_def
      user_draws_def subscriptions_on_off group_addLayer_def group_members_def new_obj_def)

text \<open>Module G subscribes again at every initialisation and never unsubscribes.\<close>

lemma initDrawTools_G_adds_subscription:
  assumes "map_obj s = Some m" and "draw_loaded P"
  shows "\<exists>m'. map_obj (fst (initDrawTools_G P s)) = Some m' \<and>
              subscriptions m' DrawCreated = subscriptions m DrawCreated @ [AppendToDrawnItems]"
  using assms
  by (simp add: initDrawTools_G_def split_beta alloc_control_def subscriptions_def map_on_def
      map_addControl_def map_addLayer_def)

text \<open>
  In that state of module G one drawing runs the handler twice; the group takes the layer
  once, because a group holds a layer at most once.
\<close>

lemma G_twice_draw_appends_once:
  "drawnItems G_twice = Some 3 \<and> next_id G_twice = 5 \<and>
   user_draws Marker (JArr [JNum (Fin 1), JNum (Fin 2)]) G_twice =
     (fst (user_draws Marker (JArr [JNum (Fin 1), JNum (Fin 2)]) G_twice), Return Undefined) \<and>
   group_members (fst (user_draws Marker (JArr [JNum (Fin 1), JNum (Fin 2)]) G_twice)) 3 = [5]"
  by (simp add: G_twice_def scene_defs)

text \<open>
  Claim C3 says that at most one draw-created subscription is active however often the
  drawing tools are initialised. Module W unsubscribes before it subscribes
  (\<open>init_all_W_one_subscription\<close>); module G does not
  (\<open>initDrawTools_G_adds_subscription\<close>): after \<^verbatim>\<open>createMap('map', 0, 0, 5)\<close> and two calls
  of \<^verbatim>\<open>initDrawTools()\<close> the map of module G has two draw-created subscriptions, and both
  feature groups and both draw controls on it.
\<close>

theorem G_initDrawTools_twice_two_subscriptions:
  "map_obj G_twice =
     Some \<lparr>layers = [0, 1, 3], controls = [2, 4],
           listeners = [(DrawCreated, AppendToDrawnItems), (DrawCreated, AppendToDrawnItems)],
           view = SetView (Val (JNum (Fin 0))) (Val (JNum (Fin 0))) (JNum (Fin 5))\<rparr> \<and>
   length (subscriptions (the (map_obj G_twice)) DrawCreated) = 2"
  by (simp add: G_twice_def G_scene_def createMap_G_def initDrawTools_G_def init_G_def
      alloc_def alloc_control_def map_addLayer_def map_addControl_def
      map_on_def new_map_def subscriptions_def Let_def)

section \<open>Fitting the map to bounds\<close>

lemma num_eq_simps [simp]:
  "num_eq (Fin a) (Fin b) = (a = b)"
  "\<not> num_eq NaN x"
  "\<not> num_eq x NaN"
  by (auto simp: num_eq_def)

lemma js_length_two:
  "strict_eq (js_length v) two =
     (case v of JArr xs \<Rightarrow> length xs = 2 | JStr s \<Rightarrow> length s = 2 | _ \<Rightarrow> False)"
  by (cases v) (auto simp: js_length_def two_def)

lemma length_two: "length xs = 2 \<longleftrightarrow> (\<exists>a b. xs = [a, b])"
  by (cases xs; cases "tl xs") auto

lemma shape_check:
  "(\<not> truthy bounds \<or> \<not> strict_eq (js_length bounds) two \<or>
     \<not> isArray (js_index bounds 0) \<or> \<not> isArray (js_index bounds 1) \<or>
     \<not> strict_eq (js_length (js_index bounds 0)) two \<or>
     \<not> strict_eq (js_length (js_index bounds 1)) two) = (\<not> well_shaped bounds)"
proof (cases bounds)
  case (JArr xs)
  show ?thesis
  proof (cases "length xs = 2")
    case True
    then obtain p q where xs: "xs = [p, q]" by (auto simp: length_two)
    show ?thesis
      by (cases p; cases q)
        (auto simp: JArr xs well_shaped_def js_length_two js_index_def isArray_def length_two)
  next
    case False
    then show ?thesis by (auto simp: JArr well_shaped_def js_length_two)
  qed
next
  case (JStr s)
  then show ?thesis by (auto simp: well_shaped_def js_length_two js_index_def isArray_def)
qed (auto simp: well_shaped_def js_length_two)

text \<open>Module G rejects bounds of the wrong shape with a logged error.\<close>

lemma fitBounds_G_rejects_shape:
  assumes "map_obj s = Some m" and "\<not> well_shaped bounds"
  shows "fitBounds_G P bounds s = (log (LogError ''Invalid bounds format'') s, Return Undefined)"
  using assms shape_check[of bounds] by (simp add: fitBounds_G_def)

lemma fitBounds_G_shaped:
  assumes "map_obj s = Some m"
  shows "fitBounds_G P (JArr [JArr [a, b], JArr [c, d]]) s =
     (if strict_eq a c \<and> strict_eq b d
      then (if latlng_throws P (Val a) (Val b) then (s, Throw LibraryError)
            else (s\<lparr>map_obj := Some (map_setView m (Val a) (Val b) (JNum (Fin 10)))\<rparr>,
                  Return Undefined))
      else if isNaN P a \<or> isNaN P b \<or> isNaN P c \<or> isNaN P d
      then (log (LogError ''Invalid coordinate values'') s, Return Undefined)
      else if fitBounds_throws P (JArr [JArr [a, b], JArr [c, d]])
      then (if latlng_throws P (Mid a c) (Mid b d)
            then (log (LogError ''Error fitting bounds:'') s, Throw LibraryError)
            else ((log (LogError ''Error fitting bounds:'') s)
                    \<lparr>map_obj := Some (map_setView m (Mid a c) (Mid b d) (JNum (Fin 8)))\<rparr>,
                  Return Undefined))
      else (s\<lparr>map_obj := Some (m\<lparr>view := FitBounds (JArr [JArr [a, b], JArr [c, d]]) True\<rparr>)\<rparr>,
            Return Undefined))"
proof -
  have "well_shaped (JArr [JArr [a, b], JArr [c, d]])" by (auto simp: well_shaped_def)
  then show ?thesis using assms shape_check[of "JArr [JArr [a, b], JArr [c, d]]"]
    by (simp add: fitBounds_G_def js_index_def Let_def)
qed

text \<open>
  A coordinate that converts to NaN is rejected with a logged error, unless the two
  corners are strictly equal; a NaN number is never strictly equal to anything.
\<close>

lemma fitBounds_G_rejects_NaN:
  assumes "map_obj s = Some m"
    and "isNaN P a \<or> isNaN P b \<or> isNaN P c \<or> isNaN P d"
    and "\<not> (strict_eq a c \<and> strict_eq b d)"
  shows "fitBounds_G P (JArr [JArr [a, b], JArr [c, d]]) s =
           (log (LogError ''Invalid coordinate values'') s, Return Undefined)"
  using assms by (auto simp: fitBounds_G_shaped)

lemma NaN_never_degenerate:
  "\<not> strict_eq (JNum NaN) v" "\<not> strict_eq v (JNum NaN)"
  by (cases v; simp)+

text \<open>Two equal numeric corners that the widget reads recentre the map at zoom 10.\<close>

lemma fitBounds_G_degenerate_numbers:
  assumes "map_obj s = Some m"
    and "\<not> latlng_throws P (Val (JNum (Fin x))) (Val (JNum (Fin y)))"
  shows "fitBounds_G P (JArr [JArr [JNum (Fin x), JNum (Fin y)], JArr [JNum (Fin x), JNum (Fin y)]]) s =
           (s\<lparr>map_obj := Some (m\<lparr>view := SetView (Val (JNum (Fin x))) (Val (JNum (Fin y)))
                                  (JNum (Fin 10))\<rparr>)\<rparr>, Return Undefined)"
  using assms by (simp add: fitBounds_G_shaped map_setView_def)

lemma G_scene_eq:
  "G_scene =
     \<lparr>map_obj = Some \<lparr>layers = [0], controls = [], listeners = [],
                       view = SetView (Val (JNum (Fin 0))) (Val (JNum (Fin 0))) (JNum (Fin 5))\<rparr>,
      drawnItems = None, drawControl = None, miniMapControl = None,
      heap = (\<lambda>h. None)(0 \<mapsto> new_obj TileLayer JNull), next_id = 1, console = [],
      markers = [], circles = [], polygons = [], polylines = [], geoJsonLayers = [],
      isDisposed = False\<rparr>"
  by (simp add: G_scene_def createMap_G_def init_G_def alloc_def
      map_addLayer_def new_map_def Let_def)

lemma G_scene_map:
  "map_obj G_scene =
     Some \<lparr>layers = [0], controls = [], listeners = [],
           view = SetView (Val (JNum (Fin 0))) (Val (JNum (Fin 0))) (JNum (Fin 5))\<rparr>"
  "console G_scene = []"
  by (simp_all add: G_scene_eq)

text \<open>
  Claim C9 says that, the test for two equal corners coming before the test for numeric
  coordinates, bounds whose corners are strictly equal and not numeric make \<^verbatim>\<open>fitBounds\<close>
  of module G call \<^verbatim>\<open>setView\<close> with those values at zoom 10, a change of state. The order
  of the tests is as the claim says, but the call is made outside any \<^verbatim>\<open>try\<close> and the
  widget raises for values that convert to NaN: after \<^verbatim>\<open>createMap('map', 0, 0, 5)\<close>, the
  bounds \<^verbatim>\<open>[['a','b'],['a','b']]\<close> have strictly equal corners that are not numeric, and
  \<^verbatim>\<open>fitBounds\<close> raises the widget's error and leaves the state as it was.
\<close>

theorem fitBounds_G_equal_strings_no_state_change:
  "strict_eq (JStr ''a'') (JStr ''a'') \<and> strict_eq (JStr ''b'') (JStr ''b'') \<and>
   isNaN test_platform (JStr ''a'') \<and> isNaN test_platform (JStr ''b'') \<and>
   fitBounds_G test_platform (JArr [JArr [JStr ''a'', JStr ''b''], JArr [JStr ''a'', JStr ''b'']])
       G_scene =
     (G_scene, Throw LibraryError)"
  by (simp add: fitBounds_G_shaped[OF G_scene_map(1)] isNaN_def to_number_def)

text \<open>
  Claim C9, amended. In the validating \<^verbatim>\<open>fitBounds\<close> of module G the test for two equal
  corners comes before the test for numeric coordinates: whenever the corners of
  well-shaped bounds are strictly equal, whatever the values are, the operation calls
  \<^verbatim>\<open>map.setView\<close> with the first corner and zoom 10, and neither tests the values nor logs
  anything. Where the widget reads the values the view changes and the operation returns;
  where the widget raises, the exception reaches the caller and the state is as it was.
\<close>

theorem fitBounds_G_equal_corners_before_numeric_check:
  assumes "map_obj s = Some m" and "strict_eq a c" and "strict_eq b d"
  shows "fitBounds_G P (JArr [JArr [a, b], JArr [c, d]]) s =
           (if latlng_throws P (Val a) (Val b) then (s, Throw LibraryError)
            else (s\<lparr>map_obj := Some (m\<lparr>view := SetView (Val a) (Val b) (JNum (Fin 10))\<rparr>)\<rparr>,
                  Return Undefined))"
  using assms by (simp add: fitBounds_G_shaped map_setView_def)

text \<open>
  The equal corners \<^verbatim>\<open>['1','2']\<close> are strings that convert to numbers: the view changes.
  The equal corners \<^verbatim>\<open>['c','d']\<close> convert to NaN: the widget raises.
\<close>

theorem fitBounds_G_equal_corners_witness:
  "strict_eq (JStr ''1'') (JStr ''1'') \<and> strict_eq (JStr ''2'') (JStr ''2'') \<and>
   \<not> latlng_throws test_platform (Val (JStr ''1'')) (Val (JStr ''2'')) \<and>
   fitBounds_G test_platform (JArr [JArr [JStr ''1'', JStr ''2''], JArr [JStr ''1'', JStr ''2'']])
       G_scene =
     (G_scene\<lparr>map_obj := Some \<lparr>layers = [0], controls = [], listeners = [],
                  view = SetView (Val (JStr ''1'')) (Val (JStr ''2'')) (JNum (Fin 10))\<rparr>\<rparr>,
      Return Undefined) \<and>
   latlng_throws test_platform (Val (JStr ''c'')) (Val (JStr ''d'')) \<and>
   fitBounds_G test_platform (JArr [JArr [JStr ''c'', JStr ''d''], JArr [JStr ''c'', JStr ''d'']])
       G_scene =
     (G_scene, Throw LibraryError)"
proof -
  have e: "strict_eq (JStr ''1'') (JStr ''1'')" "strict_eq (JStr ''2'') (JStr ''2'')"
    "strict_eq (JStr ''c'') (JStr ''c'')" "strict_eq (JStr ''d'') (JStr ''d'')" by simp_all
  have n: "\<not> latlng_throws test_platform (Val (JStr ''1'')) (Val (JStr ''2''))"
    "latlng_throws test_platform (Val (JStr ''c'')) (Val (JStr ''d''))"
    by (simp_all add: isNaN_def to_number_def)
  from fitBounds_G_equal_corners_before_numeric_check[OF G_scene_map(1) e(1,2), of test_platform]
    fitBounds_G_equal_corners_before_numeric_check[OF G_scene_map(1) e(3,4), of test_platform]
  show ?thesis using e n by simp
qed

text \<open>\<^verbatim>\<open>fitBounds\<close> of module W checks nothing and logs nothing.\<close>

lemma fitBounds_W_validates_nothing:
  assumes "map_obj s = Some m"
  shows "fitBounds_W P bounds s =
           (if fitBounds_throws P bounds then (s, Throw LibraryError)
            else (s\<lparr>map_obj := Some (m\<lparr>view := FitBounds bounds False\<rparr>)\<rparr>, Return Undefined))"
  using assms by (simp add: fitBounds_W_def)

text \<open>
  Claim C4 says that bounds with non-numeric values are rejected with a logged error and
  no change of the map, and that a single point recentres the map at zoom 10. Module G
  rejects bounds of the wrong shape (\<open>fitBounds_G_rejects_shape\<close>) and coordinates that
  convert to NaN when the corners differ (\<open>fitBounds_G_rejects_NaN\<close>), and recentres at
  zoom 10 on a single numeric point (\<open>fitBounds_G_degenerate_numbers\<close>). Other
  non-numeric values are not rejected. After \<^verbatim>\<open>createMap('map', 0, 0, 5)\<close>, the bounds
  \<^verbatim>\<open>[['x','y'],['x','y']]\<close> pass the test for a single point before any numeric test and
  reach \<^verbatim>\<open>map.setView\<close>, whose error reaches the caller with nothing logged; and the
  bounds \<^verbatim>\<open>[[null,1],[2,3]]\<close> are handed to \<^verbatim>\<open>map.fitBounds\<close> and change the view,
  because \<^verbatim>\<open>isNaN(null)\<close> is false.
\<close>

theorem fitBounds_G_takes_non_numeric:
  "fitBounds_G test_platform
      (JArr [JArr [JStr ''x'', JStr ''y''], JArr [JStr ''x'', JStr ''y'']]) G_scene =
     (G_scene, Throw LibraryError) \<and>
   console G_scene = [] \<and>
   fitBounds_G test_platform
      (JArr [JArr [JNull, JNum (Fin 1)], JArr [JNum (Fin 2), JNum (Fin 3)]]) G_scene =
     (G_scene\<lparr>map_obj := Some \<lparr>layers = [0], controls = [], listeners = [],
                  view = FitBounds (JArr [JArr [JNull, JNum (Fin 1)],
                                          JArr [JNum (Fin 2), JNum (Fin 3)]]) True\<rparr>\<rparr>,
      Return Undefined)"
  by (simp add: fitBounds_G_shaped[OF G_scene_map(1)] G_scene_map(2) isNaN_def to_number_def
      map_setView_def)

theorem fitBounds_G_takes_non_numeric_witness:
  "snd (fitBounds_G test_platform
          (JArr [JArr [JStr ''x'', JStr ''y''], JArr [JStr ''x'', JStr ''y'']]) G_scene) =
     Throw LibraryError \<and>
   console (fst (fitBounds_G test_platform
          (JArr [JArr [JStr ''x'', JStr ''y''], JArr [JStr ''x'', JStr ''y'']]) G_scene)) = [] \<and>
   map_obj (fst (fitBounds_G test_platform
          (JArr [JArr [JNull, JNum (Fin 1)], JArr [JNum (Fin 2), JNum (Fin 3)]]) G_scene)) =
     Some \<lparr>layers = [0], controls = [], listeners = [],
           view = FitBounds (JArr [JArr [JNull, JNum (Fin 1)],
                                   JArr [JNum (Fin 2), JNum (Fin 3)]]) True\<rparr>"
  using fitBounds_G_takes_non_numeric by simp

section \<open>Popups from a template\<close>

lemma index_of_occurs:
  "index_of pat str = Some i \<Longrightarrow> starts_with pat (drop i str)"
proof (induction str arbitrary: i)
  case Nil
  then show ?case by (simp add: starts_with_def split: if_splits)
next
  case (Cons c cs)
  then show ?case by (auto split: if_splits)
qed

lemma index_of_first:
  "index_of pat str = Some i \<Longrightarrow> j < i \<Longrightarrow> \<not> starts_with pat (drop j str)"
proof (induction str arbitrary: i j)
  case Nil
  then show ?case by (simp split: if_splits)
next
  case (Cons c cs)
  show ?case
  proof (cases "starts_with pat (c # cs)")
    case True
    with Cons.prems show ?thesis by simp
  next
    case False
    with Cons.prems obtain i' where i': "index_of pat cs = Some i'" "i = Suc i'" by auto
    show ?thesis
    proof (cases j)
      case 0
      with False show ?thesis by simp
    next
      case (Suc j')
      with Cons.prems(2) i' have "j' < i'" by simp
      from Cons.IH[OF i'(1) this] Suc show ?thesis by simp
    qed
  qed
qed

lemma index_of_None:
  "index_of pat str = None \<Longrightarrow> \<not> starts_with pat (drop j str)"
proof (induction str arbitrary: j)
  case Nil
  then show ?case by (simp add: starts_with_def split: if_splits)
next
  case (Cons c cs)
  then show ?case by (cases j) (auto split: if_splits)
qed

text \<open>A value without a dollar sign is inserted as it is.\<close>

lemma get_substitution_plain:
  "CHR ''$'' \<notin> set repl \<Longrightarrow> get_substitution matched str pos repl = repl"
  by (induction matched str pos repl rule: get_substitution.induct) auto

text \<open>
  When the pattern occurs in a text and nowhere earlier, that occurrence is the one
  replaced, and the text before and after it stays.
\<close>

lemma index_of_split:
  assumes "\<forall>j<length pre. \<not> starts_with pat (drop j (pre @ pat @ post))"
  shows "index_of pat (pre @ pat @ post) = Some (length pre)"
  using assms
proof (induction pre)
  case Nil
  have sw: "starts_with pat (pat @ post)" by (simp add: starts_with_def)
  show ?case
  proof (cases "pat @ post")
    case Nil
    then show ?thesis by simp
  next
    case (Cons c cs)
    with sw show ?thesis by simp
  qed
next
  case (Cons c pre)
  from Cons.prems have "\<not> starts_with pat (c # pre @ pat @ post)" by force
  moreover from Cons.prems have "\<forall>j<length pre. \<not> starts_with pat (drop j (pre @ pat @ post))"
    by force
  ultimately show ?case using Cons.IH by simp
qed

lemma js_replace_first:
  assumes "\<forall>j<length pre. \<not> starts_with pat (drop j (pre @ pat @ post))"
  shows "js_replace (pre @ pat @ post) pat repl =
           pre @ get_substitution pat (pre @ pat @ post) (length pre) repl @ post"
  by (simp add: js_replace_def index_of_split[OF assms])

lemma js_replace_absent:
  assumes "\<forall>j. \<not> starts_with pat (drop j str)"
  shows "js_replace str pat repl = str"
proof (cases "index_of pat str")
  case None
  then show ?thesis by (simp add: js_replace_def)
next
  case (Some i)
  from index_of_occurs[OF this] assms show ?thesis by simp
qed

text \<open>The patterns of the replacement text: \<^verbatim>\<open>$$\<close>, the match, the text before it and the text after it.\<close>

lemma js_replace_dollar_patterns:
  "js_replace ''x{a}yz'' ''{a}'' [CHR ''$'', CHR ''$'', CHR ''-'', CHR ''$'', CHR ''&'', CHR ''-'',
                                 CHR ''$'', CHR 0x60, CHR ''-'', CHR ''$'', CHR 0x27] =
     ''x$-{a}-x-yzyz''"
  by (simp add: js_replace_def starts_with_def)

text \<open>The loop over the properties, one step after the other.\<close>

lemma popupContent_W_step:
  "popupContent_W P template (before @ (prop, v) # rest) =
     popupContent_W P
       (js_replace (popupContent_W P template before) (placeholder prop) (to_string P v)) rest"
  by (simp add: popupContent_W_def)

text \<open>
  The popup that \<^verbatim>\<open>addGeoJsonWithPopup\<close> binds to the layer of a feature is the one the
  callback computes; when the callback raises, so does the operation, and the state is as
  it was.
\<close>

lemma addGeoJsonWithPopup_W_binds:
  assumes "map_obj s = Some m" and "\<not> factory_throws P (layer_kind (ftype f)) (coords f)"
    and "popup_W P popupTemplate f = Inr p"
  shows "snd (addGeoJsonWithPopup_W P (FeatureCollection [f]) popupTemplate s) =
           Return (Handle (Suc (next_id s))) \<and>
         heap (fst (addGeoJsonWithPopup_W P (FeatureCollection [f]) popupTemplate s)) (next_id s) =
           Some (layer_of_feature p f)"
  using assms
  by (simp add: addGeoJsonWithPopup_W_def L_geoJSON_def read_geojson_def alloc_def)

lemma addGeoJsonWithPopup_W_raises:
  assumes "\<not> factory_throws P (layer_kind (ftype f)) (coords f)"
    and "popup_W P popupTemplate f = Inl e"
  shows "addGeoJsonWithPopup_W P (FeatureCollection (f # fs)) popupTemplate s = (s, Throw e)"
  using assms by (simp add: addGeoJsonWithPopup_W_def L_geoJSON_def read_geojson_def)

text \<open>
  A template that is truthy and not a string: with a property the first step of the loop
  raises a TypeError, and without any the template itself is bound.
\<close>

lemma popup_W_template_not_string:
  assumes "truthy popupTemplate" and "\<forall>t. popupTemplate \<noteq> JStr t"
  shows "popup_W P popupTemplate \<lparr>ftype = ty, coords = cs, props = Some []\<rparr> =
           Inr (Some popupTemplate)"
    and "popup_W P popupTemplate \<lparr>ftype = ty, coords = cs, props = Some (pv # pvs)\<rparr> =
           Inl TypeError"
    and "popup_W P popupTemplate \<lparr>ftype = ty, coords = cs, props = None\<rparr> = Inr None"
  using assms by (cases popupTemplate; simp add: popup_W_def)+

lemma W_scene_map: "\<exists>m. map_obj W_scene = Some m"
  by (simp add: W_scene_def createMap_W_def addMarker_W_def init_W_def isNaN_def to_number_def
      alloc_def alloc_control_def)

text \<open>
  Claim C10 says that for each property of a feature only the first occurrence of its
  placeholder in the template is substituted, and that later occurrences are left in
  the popup. Each step of the loop works on the content built so far, not on the
  template, so neither holds in general. After \<^verbatim>\<open>createMap('map', 0, 0, 5)\<close> and
  \<^verbatim>\<open>addMarker(1, 2, null)\<close>, with the template \<^verbatim>\<open>{a} {b}\<close> and the properties
  \<^verbatim>\<open>{a: '{b}', b: 'Z'}\<close> the popup is \<^verbatim>\<open>Z {b}\<close>: the placeholder of \<^verbatim>\<open>b\<close> that the template
  has is left, and the text that the value of \<^verbatim>\<open>a\<close> brought in is substituted. With the
  template \<^verbatim>\<open>{a}{a}{a}\<close> and the properties \<^verbatim>\<open>a\<close> = \<^verbatim>\<open>x\<close> and \<^verbatim>\<open>a}{a\<close> = \<^verbatim>\<open>y\<close> the popup is
  \<^verbatim>\<open>xy\<close>: no later occurrence of the placeholder of \<^verbatim>\<open>a\<close> is left.
\<close>

theorem popup_not_per_template_occurrence:
  "map_option popup
     (heap (fst (addGeoJsonWithPopup_W test_platform
                   (FeatureCollection
                      [\<lparr>ftype = Point, coords = JArr [JNum (Fin 1), JNum (Fin 2)],
                        props = Some [(''a'', JStr ''{b}''), (''b'', JStr ''Z'')]\<rparr>])
                   (JStr ''{a} {b}'') W_scene))
        (next_id W_scene)) = Some (Some (JStr ''Z {b}'')) \<and>
   map_option popup
     (heap (fst (addGeoJsonWithPopup_W test_platform
                   (FeatureCollection
                      [\<lparr>ftype = Point, coords = JArr [JNum (Fin 1), JNum (Fin 2)],
                        props = Some [(''a'', JStr ''x''), (''a}{a'', JStr ''y'')]\<rparr>])
                   (JStr ''{a}{a}{a}'') W_scene))
        (next_id W_scene)) = Some (Some (JStr ''xy''))"
  using W_scene_map
  by (auto simp: addGeoJsonWithPopup_W_def L_geoJSON_def read_geojson_def layer_kind_def
      layer_of_feature_def popup_W_def popupContent_W_def placeholder_def js_replace_def
      starts_with_def isNaN_def to_number_def alloc_def)

text \<open>
  Claim C10, amended. In \<^verbatim>\<open>addGeoJsonWithPopup\<close> of module W the loop makes one \<^verbatim>\<open>replace\<close>
  per property, in the order of the properties, on the content built so far. When the
  placeholder of a property occurs in that content, its first occurrence is substituted
  by the property's value, and the text before and after that occurrence, with every
  later occurrence of the placeholder, is left to the steps of the properties that
  follow. The popup bound to the layer of the feature is the outcome of the last step.
  Here \<open>before\<close> are the properties processed earlier and \<open>rest\<close> the ones that follow,
  and the content built so far is \<open>pre\<close>, the first occurrence of the placeholder, and
  \<open>post\<close>.
\<close>

theorem popup_replaces_first_occurrence_only:
  fixes P :: platform and s :: wstate
  assumes "map_obj s = Some m" and "template \<noteq> []"
    and "\<not> factory_throws P (layer_kind ty) cs"
    and "popupContent_W P template before = pre @ placeholder prop @ post"
    and "\<forall>j<length pre. \<not> starts_with (placeholder prop) (drop j (pre @ placeholder prop @ post))"
  shows "snd (addGeoJsonWithPopup_W P
                (FeatureCollection [\<lparr>ftype = ty, coords = cs, props = Some (before @ (prop, v) # rest)\<rparr>])
                (JStr template) s) = Return (Handle (Suc (next_id s))) \<and>
         map_option popup
           (heap (fst (addGeoJsonWithPopup_W P
                         (FeatureCollection [\<lparr>ftype = ty, coords = cs, props = Some (before @ (prop, v) # rest)\<rparr>])
                         (JStr template) s))
              (next_id s)) =
           Some (Some (JStr (popupContent_W P
                               (pre @
                                get_substitution (placeholder prop) (pre @ placeholder prop @ post)
                                  (length pre) (to_string P v) @
                                post)
                               rest)))"
proof -
  let ?f = "\<lparr>ftype = ty, coords = cs, props = Some (before @ (prop, v) # rest)\<rparr>"
  let ?p = "Some (JStr (popupContent_W P
                          (pre @
                           get_substitution (placeholder prop) (pre @ placeholder prop @ post)
                             (length pre) (to_string P v) @
                           post)
                          rest))"
  have "popup_W P (JStr template) ?f = Inr ?p"
    using assms(2) by (simp add: popup_W_def popupContent_W_step assms(4) js_replace_first[OF assms(5)])
  moreover have "\<not> factory_throws P (layer_kind (ftype ?f)) (coords ?f)"
    using assms(3) by simp
  ultimately show ?thesis
    using addGeoJsonWithPopup_W_binds[OF assms(1), of P ?f "JStr template" ?p]
    by (simp add: layer_of_feature_def)
qed

text \<open>
  With the template \<^verbatim>\<open>{name} and {name}\<close> and the single property \<^verbatim>\<open>name\<close> = \<^verbatim>\<open>A\<close> the popup
  is \<^verbatim>\<open>A and {name}\<close>.
\<close>

theorem popup_replaces_first_occurrence_only_witness:
  "map_obj W_scene \<noteq> None \<and> ''{name} and {name}'' \<noteq> [] \<and>
   \<not> factory_throws test_platform (layer_kind Point) (JArr [JNum (Fin 1), JNum (Fin 2)]) \<and>
   popupContent_W test_platform ''{name} and {name}'' [] = [] @ placeholder ''name'' @ '' and {name}'' \<and>
   map_option popup
     (heap (fst (addGeoJsonWithPopup_W test_platform
                   (FeatureCollection
                      [\<lparr>ftype = Point, coords = JArr [JNum (Fin 1), JNum (Fin 2)],
                        props = Some ([] @ (''name'', JStr ''A'') # [])\<rparr>])
                   (JStr ''{name} and {name}'') W_scene))
        (next_id W_scene)) = Some (Some (JStr ''A and {name}''))"
proof -
  obtain m where m: "map_obj W_scene = Some m" using W_scene_map by blast
  have t: "''{name} and {name}'' \<noteq> []" by simp
  have a: "\<not> factory_throws test_platform (layer_kind Point) (JArr [JNum (Fin 1), JNum (Fin 2)])"
    by (simp add: layer_kind_def isNaN_def to_number_def)
  have c: "popupContent_W test_platform ''{name} and {name}'' [] =
             [] @ placeholder ''name'' @ '' and {name}''"
    by (simp add: popupContent_W_def placeholder_def)
  have n: "\<forall>j<length ([]::string).
             \<not> starts_with (placeholder ''name'') (drop j ([] @ placeholder ''name'' @ '' and {name}''))"
    by simp
  from popup_replaces_first_occurrence_only[OF m t a c n, of "JStr ''A''" "[]"]
  have "map_option popup
     (heap (fst (addGeoJsonWithPopup_W test_platform
                   (FeatureCollection
                      [\<lparr>ftype = Point, coords = JArr [JNum (Fin 1), JNum (Fin 2)],
                        props = Some ([] @ (''name'', JStr ''A'') # [])\<rparr>])
                   (JStr ''{name} and {name}'') W_scene))
        (next_id W_scene)) =
      Some (Some (JStr (popupContent_W test_platform
                          ([] @
                           get_substitution (placeholder ''name'')
                             ([] @ placeholder ''name'' @ '' and {name}'') (length ([]::string))
                             (to_string test_platform (JStr ''A'')) @
                           '' and {name}'')
                          [])))"
    by blast
  then show ?thesis using m t a c by (simp add: popupContent_W_def placeholder_def)
qed

section \<open>Export and import of the drawn items\<close>

lemma length_map_filter_all:
  "list_all (\<lambda>x. f x \<noteq> None) xs \<Longrightarrow> length (List.map_filter f xs) = length xs"
  by (induction xs) (auto simp: List.map_filter_simps split: option.splits)

lemma toGeoJSON_length:
  "drawn_group s g ms \<Longrightarrow> length (toGeoJSON s g) = length ms"
  unfolding toGeoJSON_def drawn_group_def
  by (intro trans[OF length_map_filter_all])
     (auto simp: list_all_iff is_shape_def split: option.splits)

lemma heap_alloc_all:
  "h < next_id s \<Longrightarrow> heap (snd (alloc_all obs s)) h = heap s h"
proof (induction obs arbitrary: s)
  case Nil
  then show ?case by simp
next
  case (Cons ob obs)
  have "heap (snd (alloc_all obs (snd (alloc ob s)))) h = heap (snd (alloc ob s)) h"
    using Cons.prems by (intro Cons.IH) (simp add: alloc_def)
  then show ?case using Cons.prems by (simp add: split_beta alloc_def)
qed

lemma group_addLayer_fresh:
  assumes "heap s g = Some gob"
  shows "distinct hs \<Longrightarrow> set hs \<inter> set (members gob) = {} \<Longrightarrow>
         group_members (foldl (\<lambda>st l. group_addLayer g l st) s hs) g = members gob @ hs \<and>
         drawnItems (foldl (\<lambda>st l. group_addLayer g l st) s hs) = drawnItems s"
  using assms
proof (induction hs arbitrary: s gob)
  case Nil
  then show ?case by (simp add: group_members_def)
next
  case (Cons l hs)
  let ?s1 = "group_addLayer g l s"
  let ?gob1 = "gob\<lparr>members := members gob @ [l]\<rparr>"
  have h1: "heap ?s1 g = Some ?gob1" and d1: "drawnItems ?s1 = drawnItems s"
    using Cons.prems by (auto simp: group_addLayer_def)
  have "set hs \<inter> set (members ?gob1) = {}" using Cons.prems by auto
  from Cons.IH[OF _ this h1] Cons.prems(1) d1 show ?case by simp
qed

lemma heap_alloc_all_new:
  "i < length obs \<Longrightarrow> heap (snd (alloc_all obs s)) (next_id s + i) = Some (obs ! i)"
proof (induction obs arbitrary: s i)
  case Nil
  then show ?case by simp
next
  case (Cons ob obs)
  show ?case
  proof (cases i)
    case 0
    have "heap (snd (alloc_all obs (snd (alloc ob s)))) (next_id s) = heap (snd (alloc ob s)) (next_id s)"
      by (intro heap_alloc_all) simp
    then show ?thesis using 0 by (simp add: split_beta alloc_def)
  next
    case (Suc i')
    with Cons.prems have "i' < length obs" by simp
    from Cons.IH[OF this, of "snd (alloc ob s)"] Suc show ?thesis by (simp add: split_beta)
  qed
qed

lemma heap_group_addLayer_other:
  "h \<noteq> g \<Longrightarrow> heap (foldl (\<lambda>st l. group_addLayer g l st) s hs) h = heap s h"
proof (induction hs arbitrary: s)
  case Nil
  then show ?case by simp
next
  case (Cons l hs)
  have "heap (group_addLayer g l s) h = heap s h"
    using Cons.prems by (simp add: group_addLayer_def split: option.splits)
  with Cons.IH[OF Cons.prems, of "group_addLayer g l s"] show ?case by simp
qed

lemma make_layers_accepted:
  "accepted P fs \<Longrightarrow> make_layers P (\<lambda>f. Inr None) fs = Inr (map (layer_of_feature None) fs)"
  by (induction fs) (simp_all add: accepted_def)

text \<open>
  The import of module G: the layers of the features are made first, and then appended to
  the group. The objects that were there stay as they were, the group apart.
\<close>

lemma import_core:
  fixes s :: "'a mstate_scheme"
  assumes dg: "drawn_group s g ms" and ac: "accepted P fs"
  defines "hs \<equiv> [next_id s ..< next_id s + length fs]"
  shows "\<exists>layer s1 s'. L_geoJSON P (FeatureCollection fs) (\<lambda>f. Inr None) s = Inr (layer, hs, s1) \<and>
           s' = foldl (\<lambda>st l. group_addLayer g l st) s1 hs \<and>
           drawnItems s' = Some g \<and> group_members s' g = ms @ hs \<and>
           (\<forall>h. h < next_id s \<longrightarrow> h \<noteq> g \<longrightarrow> heap s' h = heap s h) \<and>
           (\<forall>i<length fs. heap s' (next_id s + i) = Some (layer_of_feature None (fs ! i)))"
proof -
  let ?obs = "map (layer_of_feature None) fs"
  let ?sa = "snd (alloc_all ?obs s)"
  let ?grp = "(new_obj GeoJSONLayer JNull)\<lparr>members := hs\<rparr>"
  let ?s1 = "snd (alloc ?grp ?sa)"
  let ?s' = "foldl (\<lambda>st l. group_addLayer g l st) ?s1 hs"
  have fr: "fst (alloc_all ?obs s) = hs" "next_id ?sa = next_id s + length fs"
    "drawnItems ?sa = drawnItems s"
    using alloc_all_frame[of ?obs s] by (simp_all add: hs_def)
  have L: "L_geoJSON P (FeatureCollection fs) (\<lambda>f. Inr None) s = Inr (next_id ?sa, hs, ?s1)"
    using fr(1) make_layers_accepted[OF ac] by (simp add: L_geoJSON_def read_geojson_def split_beta)
  from dg obtain gob where gob: "heap s g = Some gob" "members gob = ms" "g < next_id s"
    "drawnItems s = Some g" and below: "list_all (\<lambda>h. h < next_id s) ms"
    by (auto simp: drawn_group_def group_members_def list_all_iff)
  have "heap ?sa g = Some gob" using heap_alloc_all[OF gob(3), of ?obs] gob(1) by simp
  then have h1: "heap ?s1 g = Some gob" using gob(3) fr(2) by (simp add: alloc_def)
  have d1: "drawnItems ?s1 = Some g" using gob(4) fr(3) by simp
  have disj: "set hs \<inter> set (members gob) = {}"
    using below gob(2) by (auto simp: list_all_iff hs_def)
  have dist: "distinct hs" by (simp add: hs_def)
  from group_addLayer_fresh[OF h1 dist disj] d1 gob(2)
  have A: "drawnItems ?s' = Some g" "group_members ?s' g = ms @ hs" by simp_all
  have B: "heap ?s' h = heap s h" if "h < next_id s" "h \<noteq> g" for h
  proof -
    have "heap ?s' h = heap ?s1 h" using that(2) by (rule heap_group_addLayer_other)
    also have "\<dots> = heap ?sa h" using that(1) fr(2) by (simp add: alloc_def)
    also have "\<dots> = heap s h" using that(1) by (rule heap_alloc_all)
    finally show ?thesis .
  qed
  have C: "heap ?s' (next_id s + i) = Some (layer_of_feature None (fs ! i))" if "i < length fs" for i
  proof -
    have "next_id s + i \<noteq> g" using gob(3) by simp
    then have "heap ?s' (next_id s + i) = heap ?s1 (next_id s + i)"
      by (rule heap_group_addLayer_other)
    also have "\<dots> = heap ?sa (next_id s + i)" using that fr(2) by (simp add: alloc_def)
    also have "\<dots> = Some (?obs ! i)" using that by (intro heap_alloc_all_new) simp
    finally show ?thesis using that by simp
  qed
  show ?thesis using L A B C by blast
qed

text \<open>
  The import of module W: the layer of each feature is appended to the group as soon as
  it is made.
\<close>

lemma import_each_core:
  fixes s :: "'a mstate_scheme"
  assumes "accepted P fs" and "drawnItems s = Some g" and "heap s g = Some gob"
    and "g < next_id s" and "\<forall>h \<in> set (members gob). h < next_id s"
  shows "\<exists>s'. import_each P fs s = (s', Return Undefined) \<and>
           drawnItems s' = Some g \<and>
           group_members s' g = members gob @ [next_id s ..< next_id s + length fs] \<and>
           (\<forall>h. h < next_id s \<longrightarrow> h \<noteq> g \<longrightarrow> heap s' h = heap s h) \<and>
           (\<forall>i<length fs. heap s' (next_id s + i) = Some (layer_of_feature None (fs ! i)))"
  using assms
proof (induction fs arbitrary: s gob)
  case Nil
  then show ?case by (simp add: group_members_def)
next
  case (Cons f fs)
  let ?n = "next_id s"
  let ?ob = "layer_of_feature None f"
  let ?s1 = "snd (alloc ?ob s)"
  let ?s2 = "group_addLayer g ?n ?s1"
  let ?gob2 = "gob\<lparr>members := members gob @ [?n]\<rparr>"
  have acc: "\<not> factory_throws P (layer_kind (ftype f)) (coords f)" "accepted P fs"
    using Cons.prems(1) by (simp_all add: accepted_def)
  have fresh: "?n \<notin> set (members gob)" using Cons.prems(5) by auto
  have gn: "g \<noteq> ?n" using Cons.prems(4) by simp
  have h1: "heap ?s1 g = Some gob" using Cons.prems(3) gn by (simp add: alloc_def)
  have h2: "heap ?s2 g = Some ?gob2" using h1 fresh by (simp add: group_addLayer_def)
  have d2: "drawnItems ?s2 = Some g" using Cons.prems(2) h1 by (simp add: group_addLayer_def)
  have n2: "next_id ?s2 = Suc ?n" using h1 by (simp add: group_addLayer_def)
  have other: "heap ?s2 h = (if h = ?n then Some ?ob else heap s h)" if "h \<noteq> g" for h
    using that h1 by (simp add: group_addLayer_def alloc_def)
  have step: "import_each P (f # fs) s = import_each P fs ?s2"
    using acc(1) Cons.prems(2) by (simp add: split_beta)
  have "g < next_id ?s2" using Cons.prems(4) n2 by simp
  moreover have "\<forall>h \<in> set (members ?gob2). h < next_id ?s2" using Cons.prems(5) n2 by auto
  ultimately obtain s' where s': "import_each P fs ?s2 = (s', Return Undefined)"
    "drawnItems s' = Some g"
    "group_members s' g = members ?gob2 @ [next_id ?s2 ..< next_id ?s2 + length fs]"
    "\<forall>h. h < next_id ?s2 \<longrightarrow> h \<noteq> g \<longrightarrow> heap s' h = heap ?s2 h"
    "\<forall>i<length fs. heap s' (next_id ?s2 + i) = Some (layer_of_feature None (fs ! i))"
    using Cons.IH[OF acc(2) d2 h2] by blast
  have upt: "[?n ..< ?n + length (f # fs)] = ?n # [Suc ?n ..< Suc ?n + length fs]"
    by (simp add: upt_rec)
  have A: "group_members s' g = members gob @ [?n ..< ?n + length (f # fs)]"
    using s'(3) n2 upt by simp
  have B: "heap s' h = heap s h" if "h < ?n" "h \<noteq> g" for h
    using s'(4) that other[OF that(2)] n2 by simp
  have C: "heap s' (?n + i) = Some (layer_of_feature None ((f # fs) ! i))" if "i < length (f # fs)" for i
  proof (cases i)
    case 0
    then show ?thesis using s'(4) other[of ?n] gn n2 by simp
  next
    case (Suc i')
    then show ?thesis using s'(5) that n2 by simp
  qed
  show ?case using step s'(1,2) A B C by auto
qed

text \<open>What the group exports after the import: what it exported before, and the imported features.\<close>

lemma map_filter_upt:
  "(\<forall>i<length fs. f (n + i) = Some (fs ! i)) \<Longrightarrow> List.map_filter f [n ..< n + length fs] = fs"
proof (induction fs rule: rev_induct)
  case Nil
  then show ?case by (simp add: List.map_filter_def)
next
  case (snoc x fs)
  have "\<forall>i<length fs. f (n + i) = Some (fs ! i)"
    using snoc.prems by (auto simp: nth_append split: if_splits)
  from snoc.IH[OF this] have "List.map_filter f [n ..< n + length fs] = fs" .
  moreover have "f (n + length fs) = Some x" using snoc.prems by (auto simp: nth_append)
  ultimately show ?case by (simp add: List.map_filter_def)
qed

lemma feature_of_layer: "feature_of_obj (layer_of_feature p f) = Some f"
  by (cases "ftype f") (simp_all add: feature_of_obj_def layer_of_feature_def layer_kind_def)

lemma toGeoJSON_after_import:
  fixes s s' :: "'a mstate_scheme"
  assumes dg: "drawn_group s g ms"
    and mem: "group_members s' g = ms @ [next_id s ..< next_id s + length fs]"
    and old: "\<forall>h. h < next_id s \<longrightarrow> h \<noteq> g \<longrightarrow> heap s' h = heap s h"
    and new: "\<forall>i<length fs. heap s' (next_id s + i) = Some (layer_of_feature None (fs ! i))"
  shows "toGeoJSON s' g = toGeoJSON s g @ fs"
proof -
  let ?L = "\<lambda>st h. case heap st h of None \<Rightarrow> None | Some ob \<Rightarrow> feature_of_obj ob"
  have ms: "group_members s g = ms" using dg by (simp add: drawn_group_def)
  have same: "?L s' h = ?L s h" if "h \<in> set ms" for h
  proof -
    from dg that have lt: "h < next_id s" and sh: "is_shape s h"
      by (auto simp: drawn_group_def list_all_iff)
    from dg have "\<not> is_shape s g"
      by (auto simp: drawn_group_def is_shape_def feature_of_obj_def split: option.splits)
    with sh have "h \<noteq> g" by auto
    with old lt show ?thesis by simp
  qed
  have "List.map_filter (?L s') ms = List.map_filter (?L s) ms"
    unfolding List.map_filter_def using same by (auto intro!: map_cong filter_cong)
  moreover have "List.map_filter (?L s') [next_id s ..< next_id s + length fs] = fs"
    by (rule map_filter_upt) (simp add: new feature_of_layer)
  ultimately show ?thesis
    by (simp add: toGeoJSON_def mem ms List.map_filter_def)
qed

lemma G_drawn_group: "drawn_group G_drawn 1 [3, 4]"
  by (simp add: drawn_group_def is_shape_def feature_of_obj_def scene_defs)

lemma W_drawn_group: "drawn_group W_drawn 5 [7, 8]"
  by (simp add: drawn_group_def is_shape_def feature_of_obj_def scene_defs)

lemma next_ids: "next_id G_drawn = 5" "next_id W_drawn = 9"
  by (simp_all add: scene_defs)

lemma drawn_exports:
  "toGeoJSON G_drawn (Suc 0) =
     [\<lparr>ftype = Point, coords = JArr [JNum (Fin 1), JNum (Fin 2)], props = None\<rparr>,
      \<lparr>ftype = PolygonT,
       coords = JArr [JArr [JNum (Fin 0), JNum (Fin 0)], JArr [JNum (Fin 0), JNum (Fin 1)],
                      JArr [JNum (Fin 1), JNum (Fin 0)]], props = None\<rparr>]"
  "toGeoJSON W_drawn 5 = toGeoJSON G_drawn (Suc 0)"
  by (simp_all add: toGeoJSON_def feature_of_obj_def List.map_filter_def scene_defs)

lemma drawn_accepted:
  "accepted test_platform (toGeoJSON G_drawn 1)" "accepted test_platform (toGeoJSON W_drawn 5)"
  by (simp_all add: drawn_exports accepted_def layer_kind_def isNaN_def to_number_def)

text \<open>
  Claim C7 says that \<^verbatim>\<open>addDrawnFromGeoJson(getDrawnGeoJson())\<close> doubles the drawn items.
  \<^verbatim>\<open>getDrawnGeoJson\<close> returns JSON text, and \<^verbatim>\<open>addDrawnFromGeoJson\<close> hands its argument to
  \<^verbatim>\<open>L.geoJSON\<close> unparsed, which reads objects only. With two drawings in the group, a
  marker and a polygon, the text that \<^verbatim>\<open>getDrawnGeoJson()\<close> returns makes
  \<^verbatim>\<open>addDrawnFromGeoJson\<close> raise the library's error, and the group keeps its two members,
  in module G and in module W.
\<close>

theorem drawn_text_is_not_imported:
  "getDrawnGeoJson_G test_platform G_drawn =
     (G_drawn, Return (Text ''FeatureCollection[ff]'')) \<and>
   addDrawnFromGeoJson_G test_platform (JsonText ''FeatureCollection[ff]'')
       G_drawn =
     (G_drawn, Throw LibraryError) \<and>
   group_members G_drawn 1 = [3, 4] \<and>
   getDrawnGeoJson_W test_platform W_drawn =
     (W_drawn, Return (Text ''FeatureCollection[ff]'')) \<and>
   addDrawnFromGeoJson_W test_platform (JsonText ''FeatureCollection[ff]'')
       W_drawn =
     (W_drawn, Throw LibraryError) \<and>
   group_members W_drawn 5 = [7, 8]"
proof -
  have d: "drawnItems G_drawn = Some 1" "drawnItems W_drawn = Some 5"
    "group_members G_drawn 1 = [3, 4]" "group_members W_drawn 5 = [7, 8]"
    using G_drawn_group W_drawn_group by (simp_all add: drawn_group_def)
  then show ?thesis
    by (simp add: getDrawnGeoJson_G_def getDrawnGeoJson_W_def addDrawnFromGeoJson_G_def
        addDrawnFromGeoJson_W_def L_geoJSON_def read_geojson_def drawn_exports)
qed

text \<open>
  Claim C7, amended. Let the drawn-items group hold \<open>N\<close> drawn shapes that the library
  makes layers of again. \<^verbatim>\<open>getDrawnGeoJson()\<close> returns the JSON text of the group's feature
  collection and changes nothing. Given that text, unparsed, \<^verbatim>\<open>addDrawnFromGeoJson\<close>
  raises the library's error and changes nothing. Given the feature collection that the
  text denotes, \<^verbatim>\<open>addDrawnFromGeoJson\<close> creates one new layer per feature and appends them
  to the group without clearing it: the group then holds the \<open>N\<close> old layers followed by
  \<open>N\<close> new ones, and exports every feature it exported before twice. This holds in module
  G and in module W.
\<close>

theorem drawn_round_trip_doubles:
  fixes P :: platform and sG :: gstate and sW :: wstate
  assumes "drawn_group sG g ms" and "accepted P (toGeoJSON sG g)"
    and "json_stringify P (toGeoJSON sG g) \<noteq> []"
    and "drawn_group sW g' ms'" and "accepted P (toGeoJSON sW g')"
    and "json_stringify P (toGeoJSON sW g') \<noteq> []"
  shows "getDrawnGeoJson_G P sG = (sG, Return (Text (json_stringify P (toGeoJSON sG g)))) \<and>
         addDrawnFromGeoJson_G P (JsonText (json_stringify P (toGeoJSON sG g))) sG =
           (sG, Throw LibraryError) \<and>
         snd (addDrawnFromGeoJson_G P (FeatureCollection (toGeoJSON sG g)) sG) = Return Undefined \<and>
         group_members (fst (addDrawnFromGeoJson_G P (FeatureCollection (toGeoJSON sG g)) sG)) g =
           ms @ [next_id sG ..< next_id sG + length ms] \<and>
         length (group_members (fst (addDrawnFromGeoJson_G P (FeatureCollection (toGeoJSON sG g)) sG)) g) =
           2 * length ms \<and>
         toGeoJSON (fst (addDrawnFromGeoJson_G P (FeatureCollection (toGeoJSON sG g)) sG)) g =
           toGeoJSON sG g @ toGeoJSON sG g \<and>
         getDrawnGeoJson_W P sW = (sW, Return (Text (json_stringify P (toGeoJSON sW g')))) \<and>
         addDrawnFromGeoJson_W P (JsonText (json_stringify P (toGeoJSON sW g'))) sW =
           (sW, Throw LibraryError) \<and>
         snd (addDrawnFromGeoJson_W P (FeatureCollection (toGeoJSON sW g')) sW) = Return Undefined \<and>
         group_members (fst (addDrawnFromGeoJson_W P (FeatureCollection (toGeoJSON sW g')) sW)) g' =
           ms' @ [next_id sW ..< next_id sW + length ms'] \<and>
         length (group_members (fst (addDrawnFromGeoJson_W P (FeatureCollection (toGeoJSON sW g')) sW)) g') =
           2 * length ms' \<and>
         toGeoJSON (fst (addDrawnFromGeoJson_W P (FeatureCollection (toGeoJSON sW g')) sW)) g' =
           toGeoJSON sW g' @ toGeoJSON sW g'"
proof -
  let ?fG = "toGeoJSON sG g" and ?fW = "toGeoJSON sW g'"
  let ?G = "fst (addDrawnFromGeoJson_G P (FeatureCollection ?fG) sG)"
  let ?W = "fst (addDrawnFromGeoJson_W P (FeatureCollection ?fW) sW)"
  have dG: "drawnItems sG = Some g" and dW: "drawnItems sW = Some g'"
    using assms(1,4) by (simp_all add: drawn_group_def)
  note lG = toGeoJSON_length[OF assms(1)] and lW = toGeoJSON_length[OF assms(4)]
  have tx: "getDrawnGeoJson_G P sG = (sG, Return (Text (json_stringify P ?fG)))"
    "addDrawnFromGeoJson_G P (JsonText (json_stringify P ?fG)) sG = (sG, Throw LibraryError)"
    "getDrawnGeoJson_W P sW = (sW, Return (Text (json_stringify P ?fW)))"
    "addDrawnFromGeoJson_W P (JsonText (json_stringify P ?fW)) sW = (sW, Throw LibraryError)"
    using dG dW assms(3,6)
    by (simp_all add: getDrawnGeoJson_G_def getDrawnGeoJson_W_def addDrawnFromGeoJson_G_def
        addDrawnFromGeoJson_W_def L_geoJSON_def read_geojson_def)
  from import_core[OF assms(1,2)] dG
  have G: "snd (addDrawnFromGeoJson_G P (FeatureCollection ?fG) sG) = Return Undefined"
    "group_members ?G g = ms @ [next_id sG ..< next_id sG + length ?fG]"
    "\<forall>h. h < next_id sG \<longrightarrow> h \<noteq> g \<longrightarrow> heap ?G h = heap sG h"
    "\<forall>i<length ?fG. heap ?G (next_id sG + i) = Some (layer_of_feature None (?fG ! i))"
    by (auto simp: addDrawnFromGeoJson_G_def)
  from assms(4) obtain gob where gob: "heap sW g' = Some gob" "members gob = ms'" "g' < next_id sW"
    "\<forall>h \<in> set (members gob). h < next_id sW"
    by (auto simp: drawn_group_def group_members_def list_all_iff)
  from import_each_core[OF assms(5) dW gob(1,3,4)] gob(2)
  have W: "snd (addDrawnFromGeoJson_W P (FeatureCollection ?fW) sW) = Return Undefined"
    "group_members ?W g' = ms' @ [next_id sW ..< next_id sW + length ?fW]"
    "\<forall>h. h < next_id sW \<longrightarrow> h \<noteq> g' \<longrightarrow> heap ?W h = heap sW h"
    "\<forall>i<length ?fW. heap ?W (next_id sW + i) = Some (layer_of_feature None (?fW ! i))"
    by (auto simp: addDrawnFromGeoJson_W_def read_geojson_def)
  have eG: "toGeoJSON ?G g = ?fG @ ?fG"
    using assms(1) G(2,3,4) by (rule toGeoJSON_after_import)
  have eW: "toGeoJSON ?W g' = ?fW @ ?fW"
    using assms(4) W(2,3,4) by (rule toGeoJSON_after_import)
  show ?thesis
    using tx G(1,2) W(1,2) eG eW lG lW by simp
qed

theorem drawn_round_trip_doubles_witness:
  "drawn_group G_drawn 1 [3, 4] \<and> accepted test_platform (toGeoJSON G_drawn 1) \<and>
   json_stringify test_platform (toGeoJSON G_drawn 1) \<noteq> [] \<and>
   drawn_group W_drawn 5 [7, 8] \<and> accepted test_platform (toGeoJSON W_drawn 5) \<and>
   json_stringify test_platform (toGeoJSON W_drawn 5) \<noteq> [] \<and>
   group_members (fst (addDrawnFromGeoJson_G test_platform (FeatureCollection (toGeoJSON G_drawn 1)) G_drawn)) 1
     = [3, 4, 5, 6] \<and>
   group_members (fst (addDrawnFromGeoJson_W test_platform (FeatureCollection (toGeoJSON W_drawn 5)) W_drawn)) 5
     = [7, 8, 9, 10] \<and>
   length (toGeoJSON (fst (addDrawnFromGeoJson_G test_platform (FeatureCollection (toGeoJSON G_drawn 1))
                             G_drawn)) 1) = 4 \<and>
   length (toGeoJSON (fst (addDrawnFromGeoJson_W test_platform (FeatureCollection (toGeoJSON W_drawn 5))
                             W_drawn)) 5) = 4"
proof -
  have j: "json_stringify test_platform (toGeoJSON G_drawn 1) \<noteq> []"
    "json_stringify test_platform (toGeoJSON W_drawn 5) \<noteq> []"
    by simp_all
  have u: "[5 ..< 5 + length [3::nat, 4]] = [5, 6]" "[9 ..< 9 + length [7::nat, 8]] = [9, 10]"
    by (simp_all add: upt_rec)
  have l: "length (toGeoJSON G_drawn 1) = 2" "length (toGeoJSON W_drawn 5) = 2"
    by (simp_all add: drawn_exports)
  from drawn_round_trip_doubles[OF G_drawn_group drawn_accepted(1) j(1)
         W_drawn_group drawn_accepted(2) j(2)]
  show ?thesis using G_drawn_group W_drawn_group drawn_accepted j u l by (simp add: next_ids)
qed

section \<open>The bearing\<close>

subsection \<open>The exact platform keeps the promises\<close>


lemma finite_num_iff: "finite_num x \<longleftrightarrow> x = NegZero \<or> (\<exists>a. x = Fin a)"
  by (cases x) simp_all





subsection \<open>Rounding within bounds\<close>


lemma ieee_mono: "ieee F \<Longrightarrow> a \<le> b \<Longrightarrow> round_d F a \<le> round_d F b"
  by (simp add: ieee_def)




lemma ieee_pow2: "ieee F \<Longrightarrow> round_d F (2 ^ n) = 2 ^ n"
  by (simp add: ieee_def)

lemma ieee_pi: "ieee F \<Longrightarrow> 2 \<le> pi_d F" "ieee F \<Longrightarrow> pi_d F \<le> 4"
  by (simp_all add: ieee_def)







lemma fneg_finite [simp]: "finite_num (fneg y) = finite_num y" "rval (fneg y) = - rval y"
  by (cases y; simp)+









subsection \<open>Beyond the geographic range\<close>

text \<open>
  \<open>2^1023\<close> is a finite double and no latitude. Multiplied by \<^verbatim>\<open>Math.PI\<close> it overflows to
  infinity, whose sine and cosine are NaN, and the NaN reaches the result.
\<close>

lemma overflow_NaN:
  assumes "ieee F"
  shows "calculateBearing F (Fin (2 ^ 1023)) fromLng toLat toLng = NaN"
proof -
  note pi = ieee_pi[OF assms]
  have "(2::real) ^ 1024 = 2 ^ 1023 * 2" by simp
  also have "\<dots> \<le> 2 ^ 1023 * pi_d F" using pi by (intro mult_left_mono) simp_all
  finally have "round_d F (2 ^ 1024) \<le> round_d F (2 ^ 1023 * pi_d F)"
    by (rule ieee_mono[OF assms])
  then have "2 ^ 1024 \<le> round_d F (2 ^ 1023 * pi_d F)" using ieee_pow2[OF assms, of 1024] by simp
  moreover have "max_double < 2 ^ 1024" by (simp add: max_double_def)
  ultimately have "fmul F (Fin (2 ^ 1023)) (Fin (pi_d F)) = PInf" by (simp add: fmul_def fl_def)
  then have phi1: "fdiv F (fmul F (Fin (2 ^ 1023)) (Fin (pi_d F))) (Fin 180) = PInf"
    by (simp add: fdiv_def signed_inf_def)
  have tr: "cos_d F PInf = NaN" "sin_d F PInf = NaN" using assms by (simp_all add: ieee_def)
  have n1: "\<And>v. fmul F NaN v = NaN" "\<And>v. fadd F NaN v = NaN" "\<And>v. fdiv F NaN v = NaN"
    "\<And>v. frem NaN v = NaN"
    by (simp_all add: fmul_def fadd_def fdiv_def frem_def)
  have n2: "\<And>v. atan2_d F v NaN = NaN" using assms by (simp add: ieee_def)
  show ?thesis
    by (simp only: calculateBearing_def Let_def phi1 tr fsub_def n1 n2)
qed

subsection \<open>The range of the bearing\<close>




text \<open>In exact arithmetic the bearing from \<open>(0, 0)\<close> to \<open>(0, 1)\<close> is due east.\<close>

lemma fl_exact: "\<bar>r\<bar> \<le> 720 \<Longrightarrow> fl exact_fpu sb r = (if r = 0 then signed_zero sb else Fin r)"
  by (simp add: fl_def exact_fpu_def max_double_def abs_le_iff)

lemma exact_sel:
  "pi_d exact_fpu = pi" "sin_d exact_fpu = exact_sin" "cos_d exact_fpu = exact_cos"
  "atan2_d exact_fpu = exact_atan2"
  by (simp_all add: exact_fpu_def)

lemma bearing_due_east:
  "calculateBearing exact_fpu (Fin 0) (Fin 0) (Fin 0) (Fin 1) = Fin 90"
proof -
  have p: "0 < pi" "pi \<le> 4" using pi_less_4 by simp_all
  have s: "0 < sin (pi / 180)" using p by (intro sin_gt_zero) simp_all
  have s1: "\<bar>sin (pi / 180)\<bar> \<le> 720" using abs_sin_le_one[of "pi / 180"] by linarith
  have phi: "fdiv exact_fpu (fmul exact_fpu (Fin 0) (Fin pi)) (Fin 180) = Fin 0"
    using p by (simp add: fmul_def fdiv_def fl_exact signed_zero_def)
  have dl: "fdiv exact_fpu (fmul exact_fpu (fsub exact_fpu (Fin 1) (Fin 0)) (Fin pi)) (Fin 180) =
              Fin (pi / 180)"
    using p by (simp add: fsub_def fadd_def fmul_def fdiv_def fl_exact signed_zero_def abs_le_iff)
  have tr: "exact_sin (Fin 0) = Fin 0" "exact_cos (Fin 0) = Fin 1"
    "exact_sin (Fin (pi / 180)) = Fin (sin (pi / 180))"
    "exact_cos (Fin (pi / 180)) = Fin (cos (pi / 180))"
    by (simp_all add: exact_sin_def exact_cos_def)
  have c1: "\<bar>cos (pi / 180)\<bar> \<le> 720" using abs_cos_le_one[of "pi / 180"] by linarith
  have y: "fmul exact_fpu (Fin (sin (pi / 180))) (Fin 1) = Fin (sin (pi / 180))"
    using s s1 by (simp add: fmul_def fl_exact)
  have pr: "fmul exact_fpu (Fin 1) (Fin 0) = Fin 0" "fmul exact_fpu (Fin 0) (Fin 1) = Fin 0"
    "fmul exact_fpu (Fin 0) (Fin (cos (pi / 180))) = signed_zero (cos (pi / 180) < 0)"
    by (simp_all add: fmul_def fl_exact signed_zero_def)
  have x: "fsub exact_fpu (Fin 0) (signed_zero (cos (pi / 180) < 0)) = Fin 0"
    by (simp add: fsub_def fadd_def signed_zero_def)
  have a: "exact_atan2 (Fin (sin (pi / 180))) (Fin 0) = Fin (pi / 2)"
    using s by (simp add: exact_atan2_def atan2_real_def)
  have t: "frem (fadd exact_fpu (fdiv exact_fpu (fmul exact_fpu (Fin (pi / 2)) (Fin 180)) (Fin pi))
                   (Fin 360)) (Fin 360) = Fin 90"
    using p by (simp add: fmul_def fdiv_def fadd_def frem_def fl_exact trunc_def abs_le_iff)
  show ?thesis
    by (simp add: calculateBearing_def Let_def exact_sel phi dl tr y pr x a t)
qed


subsection \<open>The bearing from a point to itself\<close>








text \<open>
  The sign of a zero matters when the two points are not the same value. The latitudes
  \<open>+0\<close> and \<open>-0\<close> are equal as numbers, and the bearing from \<open>(+0, 5)\<close> to \<open>(-0, 5)\<close> is 180:
  \<^verbatim>\<open>x\<close> is \<open>-0\<close>, and \<^verbatim>\<open>Math.atan2(+0, -0)\<close> is \<^verbatim>\<open>Math.PI\<close>.
\<close>

lemma bearing_to_negative_zero:
  "num_eq (Fin 0) NegZero \<and>
   calculateBearing exact_fpu (Fin 0) (Fin 5) NegZero (Fin 5) = Fin 180"
proof -
  have p: "0 < pi" "pi \<le> 4" using pi_less_4 by simp_all
  have phi1: "fdiv exact_fpu (fmul exact_fpu (Fin 0) (Fin pi)) (Fin 180) = Fin 0"
    using p by (simp add: fmul_def fdiv_def fl_exact signed_zero_def)
  have phi2: "fdiv exact_fpu (fmul exact_fpu NegZero (Fin pi)) (Fin 180) = NegZero"
    using p by (simp add: fmul_def fdiv_def fl_exact signed_zero_def)
  have dl: "fdiv exact_fpu (fmul exact_fpu (fsub exact_fpu (Fin 5) (Fin 5)) (Fin pi)) (Fin 180) = Fin 0"
    using p by (simp add: fsub_def fadd_def fmul_def fdiv_def fl_exact signed_zero_def)
  have tr: "exact_sin (Fin 0) = Fin 0" "exact_sin NegZero = NegZero" "exact_cos (Fin 0) = Fin 1"
    "exact_cos NegZero = Fin 1"
    by (simp_all add: exact_sin_def exact_cos_def)
  have pr: "fmul exact_fpu (Fin 0) (Fin 1) = Fin 0" "fmul exact_fpu (Fin 1) NegZero = NegZero"
    by (simp_all add: fmul_def fl_exact signed_zero_def)
  have x: "fsub exact_fpu NegZero (Fin 0) = NegZero"
    by (simp add: fsub_def fadd_def signed_zero_def)
  have a: "exact_atan2 (Fin 0) NegZero = Fin pi"
    by (simp add: exact_atan2_def)
  have t: "frem (fadd exact_fpu (fdiv exact_fpu (fmul exact_fpu (Fin pi) (Fin 180)) (Fin pi))
                   (Fin 360)) (Fin 360) = Fin 180"
    using p by (simp add: fmul_def fdiv_def fadd_def frem_def fl_exact trunc_def abs_le_iff)
  have "calculateBearing exact_fpu (Fin 0) (Fin 5) NegZero (Fin 5) = Fin 180"
    by (simp add: calculateBearing_def Let_def exact_sel phi1 phi2 dl tr pr x a t)
  then show ?thesis by (simp add: num_eq_def)
qed

end
